theory Spec2Isabelle
  imports Main
begin

section \<open>Go strings as byte lists\<close>

text \<open>
  A Go \<^verbatim>\<open>string\<close> is a sequence of bytes; here it is a \<^typ>\<open>string\<close>, one
  \<^typ>\<open>char\<close> per byte. The functions of package \<^verbatim>\<open>strings\<close> and
  \<^verbatim>\<open>strconv\<close> that the rewrite engine calls are written out below.
\<close>

definition HasPrefix :: "string \<Rightarrow> string \<Rightarrow> bool" where
  "HasPrefix s p = (take (length p) s = p)"

definition HasSuffix :: "string \<Rightarrow> string \<Rightarrow> bool" where
  "HasSuffix s x = (length x \<le> length s \<and> drop (length s - length x) s = x)"

definition TrimPrefix :: "string \<Rightarrow> string \<Rightarrow> string" where
  "TrimPrefix s p = (if HasPrefix s p then drop (length p) s else s)"

definition TrimSuffix :: "string \<Rightarrow> string \<Rightarrow> string" where
  "TrimSuffix s x = (if HasSuffix s x then take (length s - length x) s else s)"

text \<open>\<^verbatim>\<open>strings.IndexByte\<close>: the index of the first occurrence, \<open>None\<close> for Go's \<open>-1\<close>.\<close>

fun IndexByte :: "string \<Rightarrow> char \<Rightarrow> nat option" where
  "IndexByte [] c = None"
| "IndexByte (x # xs) c =
     (if x = c then Some 0 else map_option Suc (IndexByte xs c))"

text \<open>
  \<^verbatim>\<open>strings.Split(s, " ")\<close>: the pieces between single space bytes. The result is
  never empty: a string with \<open>n\<close> spaces has \<open>n + 1\<close> pieces, some of them possibly
  empty.
\<close>

fun Split :: "string \<Rightarrow> string list" where
  "Split [] = [[]]"
| "Split (c # cs) =
     (if c = CHR '' '' then [] # Split cs
      else (case Split cs of p # ps \<Rightarrow> (c # p) # ps | [] \<Rightarrow> [[c]]))"

text \<open>
  \<^verbatim>\<open>strings.TrimSpace\<close> removes the leading and trailing white space, as
  \<^verbatim>\<open>unicode.IsSpace\<close> defines it, rune by rune. The runes are listed by their
  UTF-8 encodings: the six of ASCII, U+0085, U+00A0, U+1680, U+2000 to U+200A, U+2028,
  U+2029, U+202F, U+205F and U+3000.
\<close>

definition spaceRunes :: "string list" where
  "spaceRunes =
     [[CHR 0x09], [CHR 0x0A], [CHR 0x0B], [CHR 0x0C], [CHR 0x0D], [CHR 0x20],
      [CHR 0xC2, CHR 0x85], [CHR 0xC2, CHR 0xA0],
      [CHR 0xE1, CHR 0x9A, CHR 0x80],
      [CHR 0xE2, CHR 0x80, CHR 0x80], [CHR 0xE2, CHR 0x80, CHR 0x81],
      [CHR 0xE2, CHR 0x80, CHR 0x82], [CHR 0xE2, CHR 0x80, CHR 0x83],
      [CHR 0xE2, CHR 0x80, CHR 0x84], [CHR 0xE2, CHR 0x80, CHR 0x85],
      [CHR 0xE2, CHR 0x80, CHR 0x86], [CHR 0xE2, CHR 0x80, CHR 0x87],
      [CHR 0xE2, CHR 0x80, CHR 0x88], [CHR 0xE2, CHR 0x80, CHR 0x89],
      [CHR 0xE2, CHR 0x80, CHR 0x8A],
      [CHR 0xE2, CHR 0x80, CHR 0xA8], [CHR 0xE2, CHR 0x80, CHR 0xA9],
      [CHR 0xE2, CHR 0x80, CHR 0xAF],
      [CHR 0xE2, CHR 0x81, CHR 0x9F],
      [CHR 0xE3, CHR 0x80, CHR 0x80]]"

text \<open>The number of bytes of the white-space rune a string starts with, 0 when it starts with none.\<close>

definition spaceWidth :: "string list \<Rightarrow> string \<Rightarrow> nat" where
  "spaceWidth runes s =
     (case find (\<lambda>e. e \<noteq> [] \<and> HasPrefix s e) runes of
        None \<Rightarrow> 0
      | Some e \<Rightarrow> length e)"

function stripRunes :: "string list \<Rightarrow> string \<Rightarrow> string" where
  "stripRunes runes s =
     (if spaceWidth runes s = 0 then s
      else stripRunes runes (drop (spaceWidth runes s) s))"
  by pat_completeness auto
termination
proof (relation "measure (\<lambda>(runes, s). length s)")
  show "wf (measure (\<lambda>(runes, s). length s))" by simp
next
  fix runes :: "string list" and s :: string
  assume w: "spaceWidth runes s \<noteq> 0"
  then obtain e where e: "e \<noteq> []" "HasPrefix s e"
    by (auto simp: spaceWidth_def find_Some_iff split: option.splits)
  then have "s \<noteq> []" by (auto simp: HasPrefix_def)
  with w show "((runes, drop (spaceWidth runes s) s), (runes, s))
      \<in> measure (\<lambda>(runes, s). length s)"
    by simp
qed

declare stripRunes.simps [simp del]

definition TrimSpace :: "string \<Rightarrow> string" where
  "TrimSpace s =
     rev (stripRunes (map rev spaceRunes) (rev (stripRunes spaceRunes s)))"

text \<open>The rune test of the source: \<^verbatim>\<open>'0' <= ch && ch <= '9'\<close>.\<close>

definition isDigit :: "char \<Rightarrow> bool" where
  "isDigit ch = (48 \<le> (of_char ch :: int) \<and> (of_char ch :: int) \<le> 57)"

text \<open>
  \<^verbatim>\<open>strconv.Atoi\<close> on a 64-bit platform: an optional sign, then one or more decimal
  digits, and the value must fit \<^verbatim>\<open>int\<close>; \<open>None\<close> is the error return.
\<close>

fun digitsValue :: "int \<Rightarrow> string \<Rightarrow> int" where
  "digitsValue acc [] = acc"
| "digitsValue acc (c # cs) = digitsValue (acc * 10 + (of_char c - 48)) cs"

definition Atoi :: "string \<Rightarrow> int option" where
  "Atoi s =
     (let neg = (s \<noteq> [] \<and> hd s = CHR ''-'');
          ds = (if s \<noteq> [] \<and> (hd s = CHR ''-'' \<or> hd s = CHR ''+'') then tl s else s)
      in if ds = [] \<or> \<not> list_all isDigit ds then None
         else let n = digitsValue 0 ds
              in if neg then (if n \<le> 2 ^ 63 then Some (- n) else None)
                 else (if n < 2 ^ 63 then Some n else None))"


section \<open>The collaborators of the engine\<close>

text \<open>
  The request view of the engine: the fields of \<^verbatim>\<open>net/url.URL\<close> and
  \<^verbatim>\<open>net/http.Request\<close> that \<^verbatim>\<open>rewrite\<close> reads or writes. \<open>TLS\<close> is
  whether \<^verbatim>\<open>r.TLS != nil\<close>.
\<close>

record url =
  Scheme :: string
  URL_Host :: string
  Path :: string
  RawQuery :: string

record Request =
  Method :: string
  URL :: url
  Host :: string
  TLS :: bool
  RequestURI :: string

text \<open>
  What a handler has done to its \<^verbatim>\<open>http.ResponseWriter\<close>: the header map, the
  status passed to \<^verbatim>\<open>WriteHeader\<close> (if any) and the bytes passed to \<^verbatim>\<open>Write\<close>.
\<close>

record ResponseWriter =
  header :: "string \<rightharpoonup> string list"
  status :: "int option"
  body :: string

text \<open>
  The packages outside the repository are parameters of the model: every function of
  the engine takes the record \<open>L\<close> of the library functions it calls, and the theorems
  hold for every such record. \<open>'re\<close> is the type of compiled regular expressions.
  \<^item> \<open>MustCompile\<close> is \<^verbatim>\<open>regexp.MustCompile\<close>, \<open>None\<close> where it panics;
    \<open>MatchString\<close> and \<open>ReplaceAllString\<close> are the methods of \<^verbatim>\<open>*regexp.Regexp\<close>.
  \<^item> \<open>SplitHostPort\<close> is \<^verbatim>\<open>net.SplitHostPort\<close> and \<open>EffectiveTLDPlusOne\<close>
    is the function of \<^verbatim>\<open>publicsuffix\<close>, \<open>None\<close> where they return an error.
  \<^item> \<open>URL_RequestURI\<close>, \<open>URL_String\<close> and \<open>URL_Parse\<close> are the methods of
    \<^verbatim>\<open>*url.URL\<close>; \<open>URL_Parse\<close> gives \<open>Inl\<close> of the error text where it fails.
  \<^item> \<open>HTMLEscapeString\<close> is the function of \<^verbatim>\<open>html/template\<close> and
    \<open>StatusText\<close> the one of \<^verbatim>\<open>net/http\<close>.
\<close>

record 're golib =
  MustCompile :: "string \<Rightarrow> 're option"
  MatchString :: "'re \<Rightarrow> string \<Rightarrow> bool"
  ReplaceAllString :: "'re \<Rightarrow> string \<Rightarrow> string \<Rightarrow> string"
  SplitHostPort :: "string \<Rightarrow> (string \<times> string) option"
  EffectiveTLDPlusOne :: "string \<Rightarrow> string option"
  URL_RequestURI :: "url \<Rightarrow> string"
  URL_String :: "url \<Rightarrow> string"
  URL_Parse :: "url \<Rightarrow> string \<Rightarrow> string + url"
  HTMLEscapeString :: "string \<Rightarrow> string"
  StatusText :: "int \<Rightarrow> string"

section \<open>The data model of the engine\<close>

record Options =
  RedirectMatch :: "string list"
  PrimarySubdomain :: string
  Debug :: bool

record 're redirectMatch =
  code :: int
  pattern :: 're
  target :: string
  isRelativePattern :: bool
  noRedirect :: bool

text \<open>The logger of the source's \<^verbatim>\<open>Engine\<close> only serves \<^verbatim>\<open>debugf\<close> and is left out.\<close>

record 're Engine =
  redirects :: "'re redirectMatch list"
  options :: Options
  domainValidator :: "string \<Rightarrow> bool"

text \<open>
  The errors of rule compilation. The first four are the \<^verbatim>\<open>fmt.Errorf\<close> returns of
  \<^verbatim>\<open>parseRedirectMatchLine\<close> (invalid line; status code digits, with the index of
  the offending rune; status code digits, from \<^verbatim>\<open>Atoi\<close>; loop detected). The last two
  are panics: \<^verbatim>\<open>regexp.MustCompile\<close> on an invalid pattern, and the index
  expression \<^verbatim>\<open>pattern[0]\<close> on an empty pattern.
\<close>

datatype error =
  MalformedLine string
| InvalidStatusCode string nat
| InvalidStatusCodeAtoi string
| RedirectLoop string string
| PanicMustCompile string
| PanicIndexOutOfRange

fun isPanic :: "error \<Rightarrow> bool" where
  "isPanic (PanicMustCompile p) = True"
| "isPanic PanicIndexOutOfRange = True"
| "isPanic e = False"

section \<open>Rule compilation\<close>

text \<open>
  The loop \<^verbatim>\<open>for i, ch := range codeStr\<close> stops at the first rune that is not a
  digit. Every byte before it is an ASCII digit, so its index is that of the first byte
  that is not a digit.
\<close>

fun firstNonDigit :: "string \<Rightarrow> nat option" where
  "firstNonDigit [] = None"
| "firstNonDigit (c # cs) =
     (if isDigit c then map_option Suc (firstNonDigit cs) else Some 0)"

definition parseRedirectMatchLine :: "'re golib \<Rightarrow> string \<Rightarrow> error + 're redirectMatch" where
  "parseRedirectMatchLine L s =
     (let parts = Split (TrimSpace s) in
      if length parts \<noteq> 3 then Inl (MalformedLine s)
      else
        let codeStr = parts ! 0; pat = parts ! 1; tgt = parts ! 2 in
        case firstNonDigit codeStr of
          Some i \<Rightarrow> Inl (InvalidStatusCode codeStr i)
        | None \<Rightarrow>
            (case Atoi codeStr of
               None \<Rightarrow> Inl (InvalidStatusCodeAtoi codeStr)
             | Some c \<Rightarrow>
                 (case MustCompile L pat of
                    None \<Rightarrow> Inl (PanicMustCompile pat)
                  | Some regex \<Rightarrow>
                      if MatchString L regex tgt then Inl (RedirectLoop pat tgt)
                      else
                        (case pat of
                           [] \<Rightarrow> Inl PanicIndexOutOfRange
                         | ch # _ \<Rightarrow>
                             Inr \<lparr>code = c, pattern = regex, target = tgt,
                                  isRelativePattern = (ch = CHR ''/''),
                                  noRedirect = (c \<le> 0)\<rparr>))))"

text \<open>The loop of \<^verbatim>\<open>New\<close> over the lines: the first line that fails ends it.\<close>

fun parseLines :: "'re golib \<Rightarrow> 're redirectMatch list \<Rightarrow> string list
    \<Rightarrow> error + 're redirectMatch list" where
  "parseLines L acc [] = Inr acc"
| "parseLines L acc (line # lines) =
     (case parseRedirectMatchLine L line of
        Inl err \<Rightarrow> Inl err
      | Inr r \<Rightarrow> parseLines L (acc @ [r]) lines)"

definition localhost :: string where
  "localhost = ''localhost''"

definition New :: "'re golib \<Rightarrow> Options \<Rightarrow> error + 're Engine" where
  "New L opts =
     (case parseLines L [] (RedirectMatch opts) of
        Inl err \<Rightarrow> Inl err
      | Inr rds \<Rightarrow>
          Inr \<lparr>redirects = rds,
               options =
                 (if PrimarySubdomain opts \<noteq> [] \<and> \<not> HasSuffix (PrimarySubdomain opts) ''.''
                  then opts\<lparr>PrimarySubdomain := PrimarySubdomain opts @ ''.''\<rparr>
                  else opts),
               domainValidator = (\<lambda>root. \<not> HasSuffix root localhost)\<rparr>)"

section \<open>Request processing\<close>

definition sufscheme :: string where "sufscheme = ''://''"
definition schemeHTTPS :: string where "schemeHTTPS = ''https''"
definition schemeHTTP :: string where "schemeHTTP = ''http''"

definition getScheme :: "Request \<Rightarrow> string" where
  "getScheme r =
     (let scheme = Scheme (URL r) in
      (if scheme = [] then (if TLS r then schemeHTTPS else schemeHTTP) else scheme)
        @ sufscheme)"

definition getPort :: "string \<Rightarrow> string" where
  "getPort hostport =
     (case IndexByte hostport (CHR '':'') of
        Some portIdx \<Rightarrow> if portIdx > 0 then drop portIdx hostport else []
      | None \<Rightarrow> [])"

definition getHost :: "Request \<Rightarrow> string" where
  "getHost r = (if URL_Host (URL r) \<noteq> [] then URL_Host (URL r) else Host r)"

definition loopbacks :: "string list" where
  "loopbacks = [''localhost'', ''127.0.0.1'', ''0.0.0.0'', ''::1'', ''[::1]'',
     ''0:0:0:0:0:0:0:0'', ''0:0:0:0:0:0:0:1'']"

definition getDomain :: "'re golib \<Rightarrow> string \<Rightarrow> string" where
  "getDomain L hostport =
     (let host = (case SplitHostPort L hostport of
                    Some (tmp, port) \<Rightarrow> tmp
                  | None \<Rightarrow> hostport) in
      if host \<in> set loopbacks then ''localhost''
      else (case EffectiveTLDPlusOne L host of
              Some domain \<Rightarrow> domain
            | None \<Rightarrow> host))"

definition contentTypeHeaderKey :: string where
  "contentTypeHeaderKey = ''Content-Type''"

definition StatusMovedPermanently :: int where "StatusMovedPermanently = 301"
definition StatusMisdirectedRequest :: int where "StatusMisdirectedRequest = 421"
definition MethodGet :: string where "MethodGet = ''GET''"
definition MethodHead :: string where "MethodHead = ''HEAD''"

text \<open>
  \<^verbatim>\<open>redirectAbs\<close> writes the redirect itself. \<^verbatim>\<open>h.Set\<close> replaces the values of a
  key by one value, \<^verbatim>\<open>WriteHeader\<close> records the status, and \<^verbatim>\<open>fmt.Fprintln\<close>
  writes the body followed by a newline. \<^verbatim>\<open>redirectAbs\<close> passes the code of the
  rule to \<^verbatim>\<open>WriteHeader\<close> unchecked, and the response writer of \<^verbatim>\<open>net/http\<close>
  panics for a code below 100 or above 999. The panic is the result \<open>Inl\<close>, with the
  writer as the panic leaves it: the header is set, no status and no body are written.
\<close>

definition redirectAbs :: "'re golib \<Rightarrow> ResponseWriter \<Rightarrow> Request \<Rightarrow> string \<Rightarrow> int
    \<Rightarrow> ResponseWriter + ResponseWriter" where
  "redirectAbs L w r u c =
     (let hadCT = (header w contentTypeHeaderKey \<noteq> None);
          h1 = (header w)(''Location'' \<mapsto> [u]);
          h2 = (if \<not> hadCT \<and> (Method r = MethodGet \<or> Method r = MethodHead)
                then h1(contentTypeHeaderKey \<mapsto> [''text/html; charset=utf-8''])
                else h1);
          w1 = w\<lparr>header := h2\<rparr>
      in if c < 100 \<or> 999 < c then Inl w1
         else
           let w2 = w1\<lparr>status := Some c\<rparr>
           in if \<not> hadCT \<and> Method r = MethodGet
              then Inr (w2\<lparr>body := body w2
                     @ (''<a href='' @ [CHR 0x22] @ HTMLEscapeString L u @ [CHR 0x22] @ ''>''
                        @ StatusText L c @ ''</a>.'' @ [CHR 0x0A])
                     @ [CHR 0x0A]\<rparr>)
              else Inr w2)"

text \<open>
  How \<^verbatim>\<open>rewrite\<close> ends: with a call of \<^verbatim>\<open>http.Redirect(w, r, url, code)\<close>, a
  call of \<^verbatim>\<open>http.Error(w, msg, code)\<close>, the response \<^verbatim>\<open>redirectAbs\<close> has
  written, the panic of \<^verbatim>\<open>redirectAbs\<close>, or the call \<^verbatim>\<open>next.ServeHTTP(w, r)\<close> of
  the next handler with the request as it then is. The calls of \<^verbatim>\<open>debugf\<close> write to
  the log only and are left out.
\<close>

datatype outcome =
  HttpRedirect ResponseWriter Request string int
| HttpError ResponseWriter string int
| Responded ResponseWriter
| Panicked ResponseWriter
| Next ResponseWriter Request

definition matchAndReplace :: "'re golib \<Rightarrow> 're redirectMatch \<Rightarrow> string \<Rightarrow> string \<times> bool" where
  "matchAndReplace L r src =
     (if MatchString L (pattern r) src
      then (let m = ReplaceAllString L (pattern r) src (target r) in
            if m \<noteq> [] then (m, True) else ([], False))
      else ([], False))"

text \<open>The match subject of a rule: the first statements of the loop body.\<close>

definition matchSubject :: "'re golib \<Rightarrow> 're redirectMatch \<Rightarrow> Request \<Rightarrow> string" where
  "matchSubject L rd r =
     (if \<not> isRelativePattern rd
      then getScheme r @ getHost r @ URL_RequestURI L (URL r)
      else Path (URL r))"

text \<open>The body of \<^verbatim>\<open>if target, ok := rd.matchAndReplace(src); ok\<close>: each path returns.\<close>

definition applyMatch :: "'re golib \<Rightarrow> ResponseWriter \<Rightarrow> Request \<Rightarrow> 're redirectMatch
    \<Rightarrow> string \<Rightarrow> string \<Rightarrow> outcome" where
  "applyMatch L w r rd src tgt =
     (if tgt = src then Next w r
      else if noRedirect rd then
        (case URL_Parse L (URL r) tgt of
           Inl err \<Rightarrow> HttpError w err StatusMisdirectedRequest
         | Inr u \<Rightarrow> Next w (r\<lparr>URL := u\<rparr>))
      else if \<not> isRelativePattern rd then
        (case redirectAbs L w r tgt (code rd) of
           Inl w' \<Rightarrow> Panicked w'
         | Inr w' \<Rightarrow> Responded w')
      else HttpRedirect w r tgt (code rd))"

text \<open>The loop \<^verbatim>\<open>for _, rd := range e.redirects\<close> and the call after it.\<close>

fun redirectLoop :: "'re golib \<Rightarrow> ResponseWriter \<Rightarrow> Request \<Rightarrow> 're redirectMatch list
    \<Rightarrow> outcome" where
  "redirectLoop L w r [] = Next w r"
| "redirectLoop L w r (rd # rds) =
     (let src = matchSubject L rd r in
      case matchAndReplace L rd src of
        (tgt, True) \<Rightarrow> applyMatch L w r rd src tgt
      | (tgt, False) \<Rightarrow> redirectLoop L w r rds)"

text \<open>
  The first block of \<^verbatim>\<open>rewrite\<close>, on the primary subdomain: \<open>Inl\<close> is the response
  that ends the request, \<open>Inr\<close> the request with which the rules are evaluated.
\<close>

definition subdomainStep :: "'re golib \<Rightarrow> 're Engine \<Rightarrow> ResponseWriter \<Rightarrow> Request
    \<Rightarrow> outcome + Request" where
  "subdomainStep L e w r =
     (let primarySubdomain = PrimarySubdomain (options e) in
      if primarySubdomain \<noteq> [] then
        (let hostport = getHost r;
             root = getDomain L hostport in
         if domainValidator e root then
           (let root' = root @ getPort hostport;
                subdomain = TrimSuffix hostport root' in
            if subdomain = [] then
              (let newHost = primarySubdomain @ root';
                   r' = r\<lparr>Host := newHost, URL := (URL r)\<lparr>URL_Host := newHost\<rparr>\<rparr>
               in Inl (HttpRedirect w r' (URL_String L (URL r')) StatusMovedPermanently))
            else if subdomain = primarySubdomain then
              (let rootHost = TrimPrefix hostport subdomain
               in Inr (r\<lparr>Host := rootHost, URL := (URL r)\<lparr>URL_Host := rootHost\<rparr>\<rparr>))
            else Inr r)
         else Inr r)
      else Inr r)"

definition rewrite :: "'re golib \<Rightarrow> 're Engine \<Rightarrow> ResponseWriter \<Rightarrow> Request \<Rightarrow> outcome" where
  "rewrite L e w r =
     (case subdomainStep L e w r of
        Inl out \<Rightarrow> out
      | Inr r' \<Rightarrow> redirectLoop L w r' (redirects e))"


section \<open>An instance of the libraries\<close>

text \<open>
  The theorems on the engine hold for every library record. Their witnesses, and the
  inputs at which a statement of the specification fails, need one record to compute
  with; this section defines it. It follows the Go packages on the inputs used below
  and is not a model of the whole packages: the regular expressions are those built
  from literal bytes, \<^verbatim>\<open>.\<close>, \<^verbatim>\<open>*\<close> (greedy), \<^verbatim>\<open>|\<close>, capturing groups and
  escaped punctuation, matched against ASCII subjects with Go's leftmost-first
  semantics; any other pattern is given \<open>None\<close>, whether Go accepts it or not.
\<close>

datatype regex =
  Empty
| Lit char
| AnyNotNL
| Seq regex regex
| Alt regex regex
| Star regex
| Group nat regex

text \<open>Capture positions, the newest binding of a group first.\<close>

type_synonym caps = "(nat \<times> nat \<times> nat) list"

text \<open>
  All the ways the expression can match from position \<open>i\<close>, as the end position and
  the captures of each, in the order of preference of a backtracking matcher: the left
  alternative before the right one, another iteration before leaving a star. An
  iteration of a star that consumes nothing is not repeated.
\<close>

function ms :: "regex \<Rightarrow> string \<Rightarrow> nat \<times> caps \<Rightarrow> (nat \<times> caps) list" where
  "ms Empty s st = [st]"
| "ms (Lit c) s st =
     (if fst st < length s \<and> s ! fst st = c then [(Suc (fst st), snd st)] else [])"
| "ms AnyNotNL s st =
     (if fst st < length s \<and> s ! fst st \<noteq> CHR 0x0A then [(Suc (fst st), snd st)] else [])"
| "ms (Seq a b) s st = concat (map (ms b s) (ms a s st))"
| "ms (Alt a b) s st = ms a s st @ ms b s st"
| "ms (Group n a) s st =
     map (\<lambda>st'. (fst st', (n, fst st, fst st') # snd st')) (ms a s st)"
| "ms (Star a) s st =
     concat (map (\<lambda>st'. if fst st < fst st' \<and> fst st' \<le> length s
                          then ms (Star a) s st' else [])
                 (ms a s st))
     @ [st]"
  by pat_completeness auto
termination
  by (relation "measures [\<lambda>(r, s, st). size r, \<lambda>(r, s, st). length s - fst st]") auto

text \<open>
  The leftmost match at or after \<open>pos\<close>, and at its start position the preferred one:
  the start, the end and the captures.
\<close>

function findMatch :: "regex \<Rightarrow> string \<Rightarrow> nat \<Rightarrow> (nat \<times> nat \<times> caps) option" where
  "findMatch re s pos =
     (if length s < pos then None
      else (case ms re s (pos, []) of
              [] \<Rightarrow> findMatch re s (Suc pos)
            | st # _ \<Rightarrow> Some (pos, fst st, snd st)))"
  by pat_completeness auto
termination
  by (relation "measure (\<lambda>(re, s, pos). Suc (length s) - pos)") auto

declare findMatch.simps [simp del]

definition regexp_MatchString :: "regex \<Rightarrow> string \<Rightarrow> bool" where
  "regexp_MatchString re s = (findMatch re s 0 \<noteq> None)"

text \<open>
  The template of \<^verbatim>\<open>Regexp.Expand\<close>: \<^verbatim>\<open>$$\<close> is a dollar sign, \<^verbatim>\<open>$name\<close> and
  \<^verbatim>\<open>${name}\<close> a reference, where the name is the longest run of letters, digits and
  underscores; a name that is a number without a leading zero refers to that group,
  any other name to a named group, of which this fragment has none. A reference to a
  group that did not take part in the match gives nothing.
\<close>

definition isNameChar :: "char \<Rightarrow> bool" where
  "isNameChar c = (isDigit c \<or> c = CHR ''_''
     \<or> (65 \<le> (of_char c :: int) \<and> (of_char c :: int) \<le> 90)
     \<or> (97 \<le> (of_char c :: int) \<and> (of_char c :: int) \<le> 122))"

fun nameNumber :: "int \<Rightarrow> string \<Rightarrow> int option" where
  "nameNumber acc [] = Some acc"
| "nameNumber acc (c # cs) =
     (if \<not> isDigit c \<or> 100000000 \<le> acc then None
      else nameNumber (acc * 10 + (of_char c - 48)) cs)"

text \<open>The bytes the reference takes and its group number, \<open>None\<close> when it is malformed.\<close>

definition extractRef :: "string \<Rightarrow> (nat \<times> int option) option" where
  "extractRef str =
     (if str = [] then None
      else
        let brace = (hd str = CHR ''{'');
            str' = (if brace then tl str else str);
            name = takeWhile isNameChar str';
            i = length name
        in if i = 0 then None
           else if brace \<and> (length str' \<le> i \<or> str' ! i \<noteq> CHR ''}'') then None
           else Some (if brace then i + 2 else i,
                      if hd name = CHR ''0'' \<and> 1 < length name then None
                      else nameNumber 0 name))"

definition groupText :: "string \<Rightarrow> caps \<Rightarrow> nat \<Rightarrow> string" where
  "groupText src cs n =
     (case map_of cs n of
        None \<Rightarrow> []
      | Some (a, b) \<Rightarrow> take (b - a) (drop a src))"

fun expand :: "string \<Rightarrow> (nat \<Rightarrow> string) \<Rightarrow> string" where
  "expand [] g = []"
| "expand (c # t) g =
     (if c \<noteq> CHR ''$'' then c # expand t g
      else if t \<noteq> [] \<and> hd t = CHR ''$'' then CHR ''$'' # expand (drop 1 t) g
      else (case extractRef t of
              None \<Rightarrow> CHR ''$'' # expand t g
            | Some (k, num) \<Rightarrow>
                (case num of Some n \<Rightarrow> g (nat n) | None \<Rightarrow> []) @ expand (drop k t) g))"



declare ms.simps(7) [simp del]

lemma ms_fst_le: "st' \<in> set (ms r s st) \<Longrightarrow> fst st \<le> fst st'"
proof (induction r s st arbitrary: st' rule: ms.induct)
  case (4 a b s st)
  then obtain m where "m \<in> set (ms a s st)" "st' \<in> set (ms b s m)"
    by auto
  with 4 show ?case by (meson le_trans)
next
  case (7 a s st)
  from 7(3) have "st' = st \<or> (\<exists>m \<in> set (ms a s st). fst st < fst m \<and> fst m \<le> length s
        \<and> st' \<in> set (ms (Star a) s m))"
    unfolding ms.simps(7) [of a s st] by (auto split: if_splits)
  then show ?case
  proof
    assume "st' = st"
    then show ?thesis by simp
  next
    assume "\<exists>m \<in> set (ms a s st). fst st < fst m \<and> fst m \<le> length s
        \<and> st' \<in> set (ms (Star a) s m)"
    then obtain m where m: "m \<in> set (ms a s st)" "fst st < fst m" "fst m \<le> length s"
        "st' \<in> set (ms (Star a) s m)" by blast
    with 7(2) have "fst m \<le> fst st'" by blast
    with m show ?thesis by simp
  qed
qed (auto split: if_splits)

lemma findMatch_bounds:
  "findMatch re s pos = Some (a0, a1, cs) \<Longrightarrow> pos \<le> a0 \<and> a0 \<le> a1"
proof (induction re s pos rule: findMatch.induct)
  case (1 re s pos)
  show ?case
  proof (cases "ms re s (pos, [])")
    case Nil
    with 1 show ?thesis
      by (simp add: findMatch.simps [of re s pos] split: if_splits)
  next
    case (Cons st sts)
    then have "st \<in> set (ms re s (pos, []))" by simp
    then have "pos \<le> fst st" using ms_fst_le by fastforce
    with 1(2) Cons show ?thesis
      by (simp add: findMatch.simps [of re s pos] split: if_splits)
  qed
qed

text \<open>
  The loop of \<^verbatim>\<open>Regexp.replaceAll\<close>: every match found from \<open>searchPos\<close> on is
  replaced by the expanded template, except an empty match right after the previous
  match, and the search goes on after the match, at least one byte further.
\<close>

function replaceLoop :: "regex \<Rightarrow> string \<Rightarrow> string \<Rightarrow> nat \<Rightarrow> nat \<Rightarrow> string" where
  "replaceLoop re src repl lastMatchEnd searchPos =
     (if length src < searchPos then drop lastMatchEnd src
      else
        (case findMatch re src searchPos of
           None \<Rightarrow> drop lastMatchEnd src
         | Some (a0, a1, cs) \<Rightarrow>
             take (a0 - lastMatchEnd) (drop lastMatchEnd src)
             @ (if lastMatchEnd < a1 \<or> a0 = 0
                then expand repl (groupText src ((0, a0, a1) # cs)) else [])
             @ replaceLoop re src repl a1
                 (let width = (if searchPos < length src then 1 else 0) in
                  if a1 < searchPos + width then searchPos + width
                  else if a1 < searchPos + 1 then searchPos + 1
                  else a1)))"
  by pat_completeness auto
termination
  by (relation "measure (\<lambda>(re, src, repl, lastMatchEnd, searchPos). Suc (length src) - searchPos)")
    (auto dest: findMatch_bounds)

declare replaceLoop.simps [simp del]

definition regexp_ReplaceAllString :: "regex \<Rightarrow> string \<Rightarrow> string \<Rightarrow> string" where
  "regexp_ReplaceAllString re src repl = replaceLoop re src repl 0 0"



text \<open>
  The parser of the fragment, over a stack of open groups: each frame holds the number
  of its group, the alternatives already closed and the items of the current
  concatenation, both newest first. Groups are numbered by their opening parenthesis.
  An escape \<^verbatim>\<open>\c\<close> is the byte \<open>c\<close> when \<open>c\<close> is ASCII and neither a letter nor
  a digit.
\<close>

type_synonym frame = "nat \<times> regex list \<times> regex list"

fun mkSeq :: "regex list \<Rightarrow> regex" where
  "mkSeq [] = Empty"
| "mkSeq [r] = r"
| "mkSeq (r # rs) = Seq r (mkSeq rs)"

fun mkAlt :: "regex list \<Rightarrow> regex" where
  "mkAlt [] = Empty"
| "mkAlt [r] = r"
| "mkAlt (r # rs) = Alt r (mkAlt rs)"

definition closeFrame :: "regex list \<Rightarrow> regex list \<Rightarrow> regex" where
  "closeFrame alts cur = mkAlt (rev (mkSeq (rev cur) # alts))"

definition isAlnum :: "char \<Rightarrow> bool" where
  "isAlnum c = (isDigit c
     \<or> (65 \<le> (of_char c :: int) \<and> (of_char c :: int) \<le> 90)
     \<or> (97 \<le> (of_char c :: int) \<and> (of_char c :: int) \<le> 122))"

fun parseRe :: "string \<Rightarrow> nat \<Rightarrow> frame list \<Rightarrow> regex option" where
  "parseRe [] n stack =
     (case stack of
        [(g, alts, cur)] \<Rightarrow> Some (closeFrame alts cur)
      | _ \<Rightarrow> None)"
| "parseRe (c # cs) n [] = None"
| "parseRe (c # cs) n ((g, alts, cur) # rest) =
     (if c = CHR ''('' then parseRe cs (Suc n) ((n, [], []) # (g, alts, cur) # rest)
      else if c = CHR '')'' then
        (case rest of
           [] \<Rightarrow> None
         | (g', alts', cur') # rest' \<Rightarrow>
             parseRe cs n ((g', alts', Group g (closeFrame alts cur) # cur') # rest'))
      else if c = CHR ''|'' then parseRe cs n ((g, mkSeq (rev cur) # alts, []) # rest)
      else if c = CHR ''*'' then
        (case cur of
           [] \<Rightarrow> None
         | Star x # xs \<Rightarrow> None
         | x # xs \<Rightarrow> parseRe cs n ((g, alts, Star x # xs) # rest))
      else if c = CHR ''.'' then parseRe cs n ((g, alts, AnyNotNL # cur) # rest)
      else if c = CHR 0x5C then
        (case cs of
           [] \<Rightarrow> None
         | d # ds \<Rightarrow>
             if (of_char d :: int) < 128 \<and> \<not> isAlnum d
             then parseRe ds n ((g, alts, Lit d # cur) # rest)
             else None)
      else if c \<in> set ''+?[]{}^$'' \<or> 128 \<le> (of_char c :: int) then None
      else parseRe cs n ((g, alts, Lit c # cur) # rest))"

definition regexp_MustCompile :: "string \<Rightarrow> regex option" where
  "regexp_MustCompile p = parseRe p 1 [(0, [], [])]"

text \<open>\<^verbatim>\<open>net.SplitHostPort\<close>, with \<open>None\<close> for each of its errors.\<close>

definition LastIndexByte :: "string \<Rightarrow> char \<Rightarrow> nat option" where
  "LastIndexByte s c =
     (case IndexByte (rev s) c of
        None \<Rightarrow> None
      | Some k \<Rightarrow> Some (length s - 1 - k))"

definition net_SplitHostPort :: "string \<Rightarrow> (string \<times> string) option" where
  "net_SplitHostPort hostport =
     (case LastIndexByte hostport (CHR '':'') of
        None \<Rightarrow> None
      | Some i \<Rightarrow>
          if hd hostport = CHR ''[''
          then
            (case IndexByte hostport (CHR '']'') of
               None \<Rightarrow> None
             | Some e \<Rightarrow>
                 if e + 1 \<noteq> i then None
                 else if IndexByte (drop 1 hostport) (CHR ''['') \<noteq> None then None
                 else if IndexByte (drop (e + 1) hostport) (CHR '']'') \<noteq> None then None
                 else Some (take (e - 1) (drop 1 hostport), drop (i + 1) hostport))
          else if IndexByte (take i hostport) (CHR '':'') \<noteq> None then None
          else if IndexByte hostport (CHR ''['') \<noteq> None then None
          else if IndexByte hostport (CHR '']'') \<noteq> None then None
          else Some (take i hostport, drop (i + 1) hostport))"

text \<open>
  \<^verbatim>\<open>publicsuffix.EffectiveTLDPlusOne\<close> over the public suffix list reduced to its
  implicit rule \<^verbatim>\<open>*\<close>: the public suffix of a domain is its last label.
\<close>

definition publicsuffix_PublicSuffix :: "string \<Rightarrow> string" where
  "publicsuffix_PublicSuffix domain =
     (case LastIndexByte domain (CHR ''.'') of
        None \<Rightarrow> domain
      | Some i \<Rightarrow> drop (i + 1) domain)"

fun containsDotDot :: "string \<Rightarrow> bool" where
  "containsDotDot (a # b # cs) = ((a = CHR ''.'' \<and> b = CHR ''.'') \<or> containsDotDot (b # cs))"
| "containsDotDot cs = False"

definition publicsuffix_EffectiveTLDPlusOne :: "string \<Rightarrow> string option" where
  "publicsuffix_EffectiveTLDPlusOne domain =
     (if HasPrefix domain ''.'' \<or> HasSuffix domain ''.'' \<or> containsDotDot domain then None
      else
        let suffix = publicsuffix_PublicSuffix domain in
        if length domain \<le> length suffix then None
        else
          let i = length domain - length suffix - 1 in
          if domain ! i \<noteq> CHR ''.'' then None
          else (case LastIndexByte (take i domain) (CHR ''.'') of
                  None \<Rightarrow> Some domain
                | Some k \<Rightarrow> Some (drop (1 + k) domain)))"

text \<open>
  The methods of \<^verbatim>\<open>*url.URL\<close> on the four fields of the request view, for URLs
  whose parts need no escaping. \<open>url_Parse\<close> resolves a reference that is an absolute
  path with an optional query, and gives an error for any other reference.
\<close>

definition url_RequestURI :: "url \<Rightarrow> string" where
  "url_RequestURI u =
     (if Path u = [] then ''/'' else Path u)
     @ (if RawQuery u \<noteq> [] then ''?'' @ RawQuery u else [])"

definition url_String :: "url \<Rightarrow> string" where
  "url_String u =
     (let buf = (if Scheme u \<noteq> [] then Scheme u @ '':'' else [])
          @ (if Scheme u \<noteq> [] \<or> URL_Host u \<noteq> []
             then (if URL_Host u \<noteq> [] \<or> Path u \<noteq> [] then ''//'' else []) @ URL_Host u
             else [])
          @ (if Path u \<noteq> [] \<and> hd (Path u) \<noteq> CHR ''/'' \<and> URL_Host u \<noteq> [] then ''/'' else [])
      in buf
         @ (if buf = [] \<and> CHR '':'' \<in> set (takeWhile (\<lambda>c. c \<noteq> CHR ''/'') (Path u))
            then ''./'' else [])
         @ Path u
         @ (if RawQuery u \<noteq> [] then ''?'' @ RawQuery u else []))"

definition url_Parse :: "url \<Rightarrow> string \<Rightarrow> string + url" where
  "url_Parse u ref =
     (if HasPrefix ref ''/'' \<and> \<not> HasPrefix ref ''//''
         \<and> set ref \<inter> set ''#%. '' = {}
      then
        (case IndexByte ref (CHR ''?'') of
           None \<Rightarrow> Inr (u\<lparr>Path := ref, RawQuery := []\<rparr>)
         | Some i \<Rightarrow> Inr (u\<lparr>Path := take i ref, RawQuery := drop (i + 1) ref\<rparr>))
      else Inl ''parse error'')"

text \<open>The escapes of \<^verbatim>\<open>html/template.HTMLEscapeString\<close>.\<close>

definition htmlReplacement :: "char \<Rightarrow> string" where
  "htmlReplacement c =
     (if c = CHR 0x00 then [CHR 0xEF, CHR 0xBF, CHR 0xBD]
      else if c = CHR 0x22 then ''&#34;''
      else if c = CHR ''&'' then ''&amp;''
      else if c = CHR 0x27 then ''&#39;''
      else if c = CHR ''+'' then ''&#43;''
      else if c = CHR ''<'' then ''&lt;''
      else if c = CHR ''>'' then ''&gt;''
      else [c])"

definition template_HTMLEscapeString :: "string \<Rightarrow> string" where
  "template_HTMLEscapeString s = concat (map htmlReplacement s)"

text \<open>\<^verbatim>\<open>http.StatusText\<close> on the redirection codes; it is empty for an unknown code.\<close>

definition http_StatusText :: "int \<Rightarrow> string" where
  "http_StatusText c =
     (if c = 300 then ''Multiple Choices''
      else if c = 301 then ''Moved Permanently''
      else if c = 302 then ''Found''
      else if c = 303 then ''See Other''
      else if c = 304 then ''Not Modified''
      else if c = 305 then ''Use Proxy''
      else if c = 307 then ''Temporary Redirect''
      else if c = 308 then ''Permanent Redirect''
      else [])"

definition golib :: "regex golib" where
  "golib =
     \<lparr>MustCompile = regexp_MustCompile,
      MatchString = regexp_MatchString,
      ReplaceAllString = regexp_ReplaceAllString,
      SplitHostPort = net_SplitHostPort,
      EffectiveTLDPlusOne = publicsuffix_EffectiveTLDPlusOne,
      URL_RequestURI = url_RequestURI,
      URL_String = url_String,
      URL_Parse = url_Parse,
      HTMLEscapeString = template_HTMLEscapeString,
      StatusText = http_StatusText\<rparr>"


section \<open>The tokens of a line in the words of the specification\<close>

text \<open>
  The specification speaks of the white-space-separated tokens of a rule line. That
  reading is written down here, next to the source's
  \<^verbatim>\<open>strings.Split(strings.TrimSpace(s), " ")\<close>, to compare the two: the tokens are
  the maximal runs of bytes that are not ASCII white space.
\<close>

definition isAsciiSpace :: "char \<Rightarrow> bool" where
  "isAsciiSpace c = (c \<in> set [CHR 0x09, CHR 0x0A, CHR 0x0B, CHR 0x0C, CHR 0x0D, CHR 0x20])"

fun tokensFrom :: "string \<Rightarrow> string \<Rightarrow> string list" where
  "tokensFrom cur [] = (if cur = [] then [] else [rev cur])"
| "tokensFrom cur (c # cs) =
     (if isAsciiSpace c
      then (if cur = [] then tokensFrom [] cs else rev cur # tokensFrom [] cs)
      else tokensFrom (c # cur) cs)"

definition whitespaceTokens :: "string \<Rightarrow> string list" where
  "whitespaceTokens s = tokensFrom [] s"

section \<open>Example rules, engines and requests\<close>

text \<open>
  The rules of the README and a few more, as \<^verbatim>\<open>parseRedirectMatchLine\<close> compiles
  them with the library instance; response writers; and a request in origin form, as
  a server receives it: the URL holds the path only, the host is in \<open>Host\<close>.
\<close>

definition seoRule :: "regex redirectMatch" where
  "seoRule = \<lparr>code = 301,
     pattern = Seq (Lit (CHR ''/'')) (Seq (Lit (CHR ''s'')) (Seq (Lit (CHR ''e''))
       (Seq (Lit (CHR ''o'')) (Seq (Lit (CHR ''/'')) (Group 1 (Star AnyNotNL)))))),
     target = ''/$1'', isRelativePattern = True, noRedirect = False\<rparr>"

definition docsRule :: "regex redirectMatch" where
  "docsRule = \<lparr>code = 301,
     pattern = Seq (Lit (CHR ''/'')) (Seq (Lit (CHR ''d'')) (Seq (Lit (CHR ''o''))
       (Seq (Lit (CHR ''c'')) (Seq (Lit (CHR ''s'')) (Seq (Lit (CHR ''/''))
       (Seq (Lit (CHR ''v'')) (Seq (Lit (CHR ''1'')) (Seq (Lit (CHR ''2''))
       (Group 1 (Star AnyNotNL)))))))))),
     target = ''/docs'', isRelativePattern = True, noRedirect = False\<rparr>"

definition emptySubstRule :: "regex redirectMatch" where
  "emptySubstRule = \<lparr>code = 301,
     pattern = Seq (Lit (CHR ''/'')) (Seq (Lit (CHR ''x'')) (Group 1 (Star AnyNotNL))),
     target = ''$1'', isRelativePattern = True, noRedirect = False\<rparr>"

definition xyRule :: "regex redirectMatch" where
  "xyRule = \<lparr>code = 302,
     pattern = Seq (Lit (CHR ''/'')) (Lit (CHR ''x'')),
     target = ''/y'', isRelativePattern = True, noRedirect = False\<rparr>"

definition oldRule :: "regex redirectMatch" where
  "oldRule = \<lparr>code = 301,
     pattern = Seq (Lit (CHR ''/'')) (Seq (Lit (CHR ''o'')) (Seq (Lit (CHR ''l''))
       (Seq (Lit (CHR ''d'')) (Group 1 (Star AnyNotNL))))),
     target = ''/'', isRelativePattern = True, noRedirect = False\<rparr>"

text \<open>A rule placed in a rule list by hand: its pattern matches its own target.\<close>

definition loopRule :: "regex redirectMatch" where
  "loopRule = \<lparr>code = 301, pattern = Seq (Lit (CHR ''/'')) (Lit (CHR ''a'')),
     target = ''/a/b'', isRelativePattern = True, noRedirect = False\<rparr>"

definition tabLine :: string where
  "tabLine = ''301 /a'' @ [CHR 0x09] @ ''b /c''"

definition tabRule :: "regex redirectMatch" where
  "tabRule = \<lparr>code = 301,
     pattern = Seq (Lit (CHR ''/'')) (Seq (Lit (CHR ''a'')) (Seq (Lit (CHR 0x09)) (Lit (CHR ''b'')))),
     target = ''/c'', isRelativePattern = True, noRedirect = False\<rparr>"

definition absRule :: "regex redirectMatch" where
  "absRule = \<lparr>code = 301,
     pattern = Seq (Lit (CHR ''h'')) (Seq (Lit (CHR ''t'')) (Seq (Lit (CHR ''t'')) (Seq (Lit (CHR ''p''))
       (Seq (Lit (CHR '':'')) (Seq (Lit (CHR ''/'')) (Seq (Lit (CHR ''/'')) (Seq (Lit (CHR ''a''))
       (Seq (Lit (CHR ''/'')) (Group 1 (Star AnyNotNL)))))))))),
     target = ''http://b/$1'', isRelativePattern = False, noRedirect = False\<rparr>"

text \<open>The same rule with the status code 1, from the line \<^verbatim>\<open>1 http://a/(.*) http://b/$1\<close>.\<close>

definition codeOneRule :: "regex redirectMatch" where
  "codeOneRule = absRule\<lparr>code := 1\<rparr>"

definition emptyWriter :: ResponseWriter where
  "emptyWriter = \<lparr>header = Map.empty, status = None, body = []\<rparr>"

definition getRequest :: "string \<Rightarrow> string \<Rightarrow> Request" where
  "getRequest h p =
     \<lparr>Method = ''GET'',
      URL = \<lparr>Scheme = [], URL_Host = [], Path = p, RawQuery = []\<rparr>,
      Host = h, TLS = False, RequestURI = p\<rparr>"

definition typedWriter :: ResponseWriter where
  "typedWriter = \<lparr>header = [''Content-Type'' \<mapsto> [''text/plain'']], status = None, body = []\<rparr>"

definition seoOptions :: Options where
  "seoOptions = \<lparr>RedirectMatch = [''301 /seo/(.*) /$1''], PrimarySubdomain = [], Debug = False\<rparr>"

definition seoEngine :: "regex Engine" where
  "seoEngine = \<lparr>redirects = [seoRule], options = seoOptions,
     domainValidator = (\<lambda>root. \<not> HasSuffix root localhost)\<rparr>"

definition xOptions :: Options where
  "xOptions = \<lparr>RedirectMatch = [''301 /x(.*) $1'', ''302 /x /y''],
     PrimarySubdomain = [], Debug = False\<rparr>"

definition xEngine :: "regex Engine" where
  "xEngine = \<lparr>redirects = [emptySubstRule, xyRule], options = xOptions,
     domainValidator = (\<lambda>root. \<not> HasSuffix root localhost)\<rparr>"

definition readmeOptions :: Options where
  "readmeOptions =
     \<lparr>RedirectMatch = [''301 /seo/(.*) /$1'', ''301 /docs/v12(.*) /docs'', ''301 /old(.*) /''],
      PrimarySubdomain = ''www'', Debug = False\<rparr>"

definition readmeEngine :: "regex Engine" where
  "readmeEngine =
     \<lparr>redirects = [seoRule, docsRule, oldRule],
      options = readmeOptions\<lparr>PrimarySubdomain := ''www.''\<rparr>,
      domainValidator = (\<lambda>root. \<not> HasSuffix root localhost)\<rparr>"

section \<open>Facts on rule compilation and on the rule loop\<close>

lemma parseRedirectMatchLine_InrD:
  assumes "parseRedirectMatchLine L s = Inr rd"
  shows "length (Split (TrimSpace s)) = 3"
    and "firstNonDigit (Split (TrimSpace s) ! 0) = None"
    and "Atoi (Split (TrimSpace s) ! 0) = Some (code rd)"
    and "MustCompile L (Split (TrimSpace s) ! 1) = Some (pattern rd)"
    and "target rd = Split (TrimSpace s) ! 2"
    and "\<not> MatchString L (pattern rd) (target rd)"
    and "Split (TrimSpace s) ! 1 \<noteq> []"
    and "isRelativePattern rd = (hd (Split (TrimSpace s) ! 1) = CHR ''/'')"
    and "noRedirect rd = (code rd \<le> 0)"
  using assms
  by (auto simp: parseRedirectMatchLine_def Let_def
      split: if_splits option.splits list.splits)

lemma parseLines_all:
  "parseLines L acc ls = Inr rds \<Longrightarrow> \<forall>rd \<in> set acc. P rd
    \<Longrightarrow> \<forall>l rd. parseRedirectMatchLine L l = Inr rd \<longrightarrow> P rd
    \<Longrightarrow> \<forall>rd \<in> set rds. P rd"
proof (induction ls arbitrary: acc)
  case Nil
  then show ?case by simp
next
  case (Cons l ls)
  from Cons.prems(1) obtain x where x: "parseRedirectMatchLine L l = Inr x"
    and rest: "parseLines L (acc @ [x]) ls = Inr rds"
    by (auto split: sum.splits)
  from x Cons.prems(3) have "P x" by blast
  with Cons.prems(2) have "\<forall>rd \<in> set (acc @ [x]). P rd" by simp
  from Cons.IH [OF rest this Cons.prems(3)] show ?case .
qed

lemma New_redirects_all:
  assumes "New L opts = Inr e"
    and "\<forall>l rd. parseRedirectMatchLine L l = Inr rd \<longrightarrow> P rd"
  shows "\<forall>rd \<in> set (redirects e). P rd"
proof -
  from assms(1) obtain rds where p: "parseLines L [] (RedirectMatch opts) = Inr rds"
    and e: "redirects e = rds"
    by (auto simp: New_def split: sum.splits)
  from parseLines_all [OF p _ assms(2)] e show ?thesis by simp
qed

lemma seoRule_parse: "parseRedirectMatchLine golib ''301 /seo/(.*) /$1'' = Inr seoRule"
  by code_simp

lemma seoEngine_New: "New golib seoOptions = Inr seoEngine"
  by (simp add: New_def seoOptions_def seoEngine_def seoRule_parse)

lemma docsRule_parse: "parseRedirectMatchLine golib ''301 /docs/v12(.*) /docs'' = Inr docsRule"
  by code_simp

lemma emptySubstRule_parse: "parseRedirectMatchLine golib ''301 /x(.*) $1'' = Inr emptySubstRule"
  by code_simp

lemma xyRule_parse: "parseRedirectMatchLine golib ''302 /x /y'' = Inr xyRule"
  by code_simp

lemma absRule_parse: "parseRedirectMatchLine golib ''301 http://a/(.*) http://b/$1'' = Inr absRule"
  by code_simp

lemma codeOneRule_parse:
  "parseRedirectMatchLine golib ''1 http://a/(.*) http://b/$1'' = Inr codeOneRule"
  by code_simp

lemma oldRule_parse: "parseRedirectMatchLine golib ''301 /old(.*) /'' = Inr oldRule"
  by code_simp

lemma readmeEngine_New: "New golib readmeOptions = Inr readmeEngine"
  by (simp add: New_def readmeOptions_def readmeEngine_def seoRule_parse docsRule_parse
      oldRule_parse HasSuffix_def)

lemma New_options:
  "New L opts = Inr e \<Longrightarrow>
    PrimarySubdomain (options e)
      = (if PrimarySubdomain opts \<noteq> [] \<and> \<not> HasSuffix (PrimarySubdomain opts) ''.''
         then PrimarySubdomain opts @ ''.'' else PrimarySubdomain opts)
    \<and> domainValidator e = (\<lambda>root. \<not> HasSuffix root localhost)"
  by (auto simp: New_def split: sum.splits)

lemma TrimSuffix_self: "TrimSuffix s s = []"
  by (simp add: TrimSuffix_def HasSuffix_def)

lemma redirectLoop_skip:
  "\<forall>p \<in> set pre. \<not> snd (matchAndReplace L p (matchSubject L p r))
    \<Longrightarrow> redirectLoop L w r (pre @ rds) = redirectLoop L w r rds"
  by (induction pre) (auto simp: Let_def split: prod.splits bool.splits)

lemma matchAndReplace_False:
  "\<not> MatchString L (pattern rd) src \<Longrightarrow> matchAndReplace L rd src = ([], False)"
  by (simp add: matchAndReplace_def)

lemma TrimSuffix_TrimPrefix:
  "TrimSuffix h x = p \<Longrightarrow> h = p @ TrimPrefix h p \<and> (HasSuffix h x \<longrightarrow> TrimPrefix h p = x)"
  by (auto simp: TrimSuffix_def TrimPrefix_def HasSuffix_def HasPrefix_def
      split: if_splits) (metis append_take_drop_id)

lemma regexp_MatchString_Empty: "regexp_MatchString Empty t"
  by (simp add: regexp_MatchString_def findMatch.simps [of Empty t 0])

section \<open>The claims\<close>

subsection \<open>C1: the loop check\<close>

text \<open>
  C1. Loop check. A line that gets as far as the compiled pattern (three parts, a
  status code of digits that \<^verbatim>\<open>Atoi\<close> accepts, a pattern that compiles) and whose
  compiled pattern matches the literal target is refused with the loop error. So the
  pattern of a successfully compiled rule does not match the rule's target, and the
  same holds for every rule of an engine that \<^verbatim>\<open>New\<close> returns. Request processing
  does not repeat the check: a rule that is placed in the rule list and whose pattern
  does match its target is applied like any other.
\<close>

theorem loop_check_at_compile_time:
  "(Split (TrimSpace s) = [codeStr, pat, tgt] \<and> firstNonDigit codeStr = None
      \<and> Atoi codeStr = Some c \<and> MustCompile L pat = Some re \<and> MatchString L re tgt
      \<longrightarrow> parseRedirectMatchLine L s = Inl (RedirectLoop pat tgt))
   \<and> (parseRedirectMatchLine L s' = Inr rd
      \<longrightarrow> \<not> MatchString L (pattern rd) (target rd))
   \<and> (New L opts = Inr e
      \<longrightarrow> (\<forall>rd' \<in> set (redirects e). \<not> MatchString L (pattern rd') (target rd')))
   \<and> (MatchString L (pattern rd0) (target rd0)
        \<and> matchAndReplace L rd0 (matchSubject L rd0 r) = (t, True)
      \<longrightarrow> redirectLoop L w r (rd0 # rds)
          = applyMatch L w r rd0 (matchSubject L rd0 r) t)"
proof (intro conjI impI)
  assume "Split (TrimSpace s) = [codeStr, pat, tgt] \<and> firstNonDigit codeStr = None
      \<and> Atoi codeStr = Some c \<and> MustCompile L pat = Some re \<and> MatchString L re tgt"
  then show "parseRedirectMatchLine L s = Inl (RedirectLoop pat tgt)"
    by (simp add: parseRedirectMatchLine_def)
next
  assume "parseRedirectMatchLine L s' = Inr rd"
  then show "\<not> MatchString L (pattern rd) (target rd)"
    by (rule parseRedirectMatchLine_InrD(6))
next
  assume n: "New L opts = Inr e"
  show "\<forall>rd' \<in> set (redirects e). \<not> MatchString L (pattern rd') (target rd')"
    by (rule New_redirects_all [OF n]) (auto dest: parseRedirectMatchLine_InrD(6))
next
  assume "MatchString L (pattern rd0) (target rd0)
        \<and> matchAndReplace L rd0 (matchSubject L rd0 r) = (t, True)"
  then show "redirectLoop L w r (rd0 # rds) = applyMatch L w r rd0 (matchSubject L rd0 r) t"
    by simp
qed

text \<open>
  The line \<^verbatim>\<open>301 /a(.*) /a/$1\<close> is refused, the first rule of the README compiles and
  is loop-free, and \<open>loopRule\<close> is applied although its pattern matches its target.
\<close>

theorem loop_check_at_compile_time_witness:
  "parseRedirectMatchLine golib ''301 /a(.*) /a/$1'' = Inl (RedirectLoop ''/a(.*)'' ''/a/$1'')
   \<and> parseRedirectMatchLine golib ''301 /seo/(.*) /$1'' = Inr seoRule
   \<and> \<not> MatchString golib (pattern seoRule) (target seoRule)
   \<and> New golib seoOptions = Inr seoEngine
   \<and> redirects seoEngine = [seoRule]
   \<and> MatchString golib (pattern loopRule) (target loopRule)
   \<and> redirectLoop golib emptyWriter (getRequest ''example.com'' ''/a'') [loopRule]
       = HttpRedirect emptyWriter (getRequest ''example.com'' ''/a'') ''/a/b'' 301"
proof -
  have h1: "Split (TrimSpace ''301 /a(.*) /a/$1'') = [''301'', ''/a(.*)'', ''/a/$1'']"
    by code_simp
  have h2: "firstNonDigit ''301'' = None" "Atoi ''301'' = Some 301"
    by code_simp+
  have h3: "MustCompile golib ''/a(.*)''
      = Some (Seq (Lit (CHR ''/'')) (Seq (Lit (CHR ''a'')) (Group 1 (Star AnyNotNL))))"
    by code_simp
  have h4: "MatchString golib
      (Seq (Lit (CHR ''/'')) (Seq (Lit (CHR ''a'')) (Group 1 (Star AnyNotNL)))) ''/a/$1''"
    by code_simp
  have h5: "MatchString golib (pattern loopRule) (target loopRule)"
    by code_simp
  have h6: "matchAndReplace golib loopRule
      (matchSubject golib loopRule (getRequest ''example.com'' ''/a'')) = (''/a/b'', True)"
    by code_simp
  have h7: "applyMatch golib emptyWriter (getRequest ''example.com'' ''/a'') loopRule
      (matchSubject golib loopRule (getRequest ''example.com'' ''/a'')) ''/a/b''
      = HttpRedirect emptyWriter (getRequest ''example.com'' ''/a'') ''/a/b'' 301"
    by (simp add: applyMatch_def matchSubject_def loopRule_def getRequest_def)
  have e: "redirects seoEngine = [seoRule]"
    by (simp add: seoEngine_def)
  from loop_check_at_compile_time [of "''301 /a(.*) /a/$1''" "''301''" "''/a(.*)''" "''/a/$1''"
      301 golib "Seq (Lit (CHR ''/'')) (Seq (Lit (CHR ''a'')) (Group 1 (Star AnyNotNL)))"
      "''301 /seo/(.*) /$1''" seoRule seoOptions seoEngine loopRule
      "getRequest ''example.com'' ''/a''" "''/a/b''" emptyWriter "[]"]
    h1 h2 h3 h4 h5 h6 h7 e seoRule_parse seoEngine_New
  show ?thesis by simp
qed

subsection \<open>C2: which rule wins\<close>

text \<open>
  C2, as amended. The rules are tried in order, and the first rule whose
  \<^verbatim>\<open>matchAndReplace\<close> succeeds (its pattern matches its match subject and the
  substitution is not empty) decides the outcome: the outcome is that rule's effect,
  whatever rules follow it. The rules before it did not succeed; a rule among them
  whose pattern matches but whose substitution is empty is passed over.
\<close>

theorem first_successful_rule_wins:
  "(\<forall>p \<in> set pre. \<not> snd (matchAndReplace L p (matchSubject L p r)))
   \<and> matchAndReplace L rd (matchSubject L rd r) = (t, True)
   \<longrightarrow> redirectLoop L w r (pre @ rd # post) = applyMatch L w r rd (matchSubject L rd r) t"
proof
  assume a: "(\<forall>p \<in> set pre. \<not> snd (matchAndReplace L p (matchSubject L p r)))
   \<and> matchAndReplace L rd (matchSubject L rd r) = (t, True)"
  then have "redirectLoop L w r (pre @ rd # post) = redirectLoop L w r (rd # post)"
    by (simp add: redirectLoop_skip)
  with a show "redirectLoop L w r (pre @ rd # post) = applyMatch L w r rd (matchSubject L rd r) t"
    by (simp add: Let_def)
qed

text \<open>
  With the rules \<^verbatim>\<open>301 /x(.*) $1\<close>, \<^verbatim>\<open>302 /x /y\<close> and the first rule of the README,
  the path \<^verbatim>\<open>/x\<close> is redirected by the second rule.
\<close>

theorem first_successful_rule_wins_witness:
  "\<not> snd (matchAndReplace golib emptySubstRule ''/x'')
   \<and> matchAndReplace golib xyRule ''/x'' = (''/y'', True)
   \<and> redirectLoop golib emptyWriter (getRequest ''example.com'' ''/x'')
        [emptySubstRule, xyRule, seoRule]
       = HttpRedirect emptyWriter (getRequest ''example.com'' ''/x'') ''/y'' 302"
proof -
  have s: "matchSubject golib emptySubstRule (getRequest ''example.com'' ''/x'') = ''/x''"
     "matchSubject golib xyRule (getRequest ''example.com'' ''/x'') = ''/x''"
    by (simp_all add: matchSubject_def emptySubstRule_def xyRule_def getRequest_def)
  have h1: "\<not> snd (matchAndReplace golib emptySubstRule ''/x'')"
    by code_simp
  have h2: "matchAndReplace golib xyRule ''/x'' = (''/y'', True)"
    by code_simp
  have h3: "applyMatch golib emptyWriter (getRequest ''example.com'' ''/x'') xyRule ''/x'' ''/y''
      = HttpRedirect emptyWriter (getRequest ''example.com'' ''/x'') ''/y'' 302"
    by (simp add: applyMatch_def xyRule_def)
  from first_successful_rule_wins [of "[emptySubstRule]" golib
      "getRequest ''example.com'' ''/x''" xyRule "''/y''" emptyWriter "[seoRule]"] s h1 h2 h3
  show ?thesis by (simp del: redirectLoop.simps)
qed

text \<open>
  C2 as stated fails. The engine compiled from \<^verbatim>\<open>301 /x(.*) $1\<close> and
  \<^verbatim>\<open>302 /x /y\<close> receives the path \<^verbatim>\<open>/x\<close>. Both patterns match it, and the
  response is the redirect of the second rule, with the second rule's status; with the
  first rule alone the request would have been passed on.
\<close>

theorem first_match_wins_counterexample:
  "New golib xOptions = Inr xEngine
   \<and> redirects xEngine = [emptySubstRule, xyRule]
   \<and> MatchString golib (pattern emptySubstRule)
        (matchSubject golib emptySubstRule (getRequest ''example.com'' ''/x''))
   \<and> MatchString golib (pattern xyRule)
        (matchSubject golib xyRule (getRequest ''example.com'' ''/x''))
   \<and> rewrite golib xEngine emptyWriter (getRequest ''example.com'' ''/x'')
       = HttpRedirect emptyWriter (getRequest ''example.com'' ''/x'') ''/y'' (code xyRule)
   \<and> code xyRule \<noteq> code emptySubstRule
   \<and> rewrite golib (xEngine\<lparr>redirects := [emptySubstRule]\<rparr>) emptyWriter
        (getRequest ''example.com'' ''/x'')
       = Next emptyWriter (getRequest ''example.com'' ''/x'')"
proof -
  have n: "New golib xOptions = Inr xEngine"
    by (simp add: New_def xOptions_def xEngine_def emptySubstRule_parse xyRule_parse)
  have s: "matchSubject golib emptySubstRule (getRequest ''example.com'' ''/x'') = ''/x''"
     "matchSubject golib xyRule (getRequest ''example.com'' ''/x'') = ''/x''"
    by (simp_all add: matchSubject_def emptySubstRule_def xyRule_def getRequest_def)
  have h0: "MatchString golib (pattern emptySubstRule) ''/x''"
      "MatchString golib (pattern xyRule) ''/x''"
    by code_simp+
  have h1: "matchAndReplace golib emptySubstRule ''/x'' = ([], False)"
    by code_simp
  have h2: "matchAndReplace golib xyRule ''/x'' = (''/y'', True)"
    by code_simp
  have h3: "applyMatch golib emptyWriter (getRequest ''example.com'' ''/x'') xyRule ''/x'' ''/y''
      = HttpRedirect emptyWriter (getRequest ''example.com'' ''/x'') ''/y'' 302"
    by (simp add: applyMatch_def xyRule_def)
  have c: "code xyRule = 302" "code emptySubstRule = 301"
    by (simp_all add: xyRule_def emptySubstRule_def)
  have r: "rewrite golib xEngine emptyWriter (getRequest ''example.com'' ''/x'')
      = redirectLoop golib emptyWriter (getRequest ''example.com'' ''/x'') [emptySubstRule, xyRule]"
    by (simp add: rewrite_def subdomainStep_def xEngine_def xOptions_def)
  have r': "rewrite golib (xEngine\<lparr>redirects := [emptySubstRule]\<rparr>) emptyWriter
        (getRequest ''example.com'' ''/x'')
      = redirectLoop golib emptyWriter (getRequest ''example.com'' ''/x'') [emptySubstRule]"
    by (simp add: rewrite_def subdomainStep_def xEngine_def xOptions_def)
  show ?thesis
    using n s h0 h1 h2 h3 c r r' by (simp add: xEngine_def Let_def)
qed

subsection \<open>C3: applying a rule to its own output\<close>

text \<open>
  C3, as amended. The loop check compares the pattern with the literal target only.
  So for a successfully compiled rule and an input whose substitution result is the
  literal target itself, the pattern does not match that output, and
  \<^verbatim>\<open>matchAndReplace\<close> on the output does not match.
\<close>

theorem literal_output_not_rematched:
  "parseRedirectMatchLine L s = Inr rd \<and> matchAndReplace L rd src = (target rd, True)
   \<longrightarrow> \<not> MatchString L (pattern rd) (fst (matchAndReplace L rd src))
     \<and> matchAndReplace L rd (fst (matchAndReplace L rd src)) = ([], False)"
proof
  assume a: "parseRedirectMatchLine L s = Inr rd \<and> matchAndReplace L rd src = (target rd, True)"
  then have "\<not> MatchString L (pattern rd) (target rd)"
    by (blast dest: parseRedirectMatchLine_InrD(6))
  with a show "\<not> MatchString L (pattern rd) (fst (matchAndReplace L rd src))
     \<and> matchAndReplace L rd (fst (matchAndReplace L rd src)) = ([], False)"
    by (simp add: matchAndReplace_False)
qed

text \<open>
  The second rule of the README sends \<^verbatim>\<open>/docs/v12/hello\<close> to its literal target
  \<^verbatim>\<open>/docs\<close>, which it does not match.
\<close>

theorem literal_output_not_rematched_witness:
  "parseRedirectMatchLine golib ''301 /docs/v12(.*) /docs'' = Inr docsRule
   \<and> matchAndReplace golib docsRule ''/docs/v12/hello'' = (''/docs'', True)
   \<and> target docsRule = ''/docs''
   \<and> \<not> MatchString golib (pattern docsRule) ''/docs''
   \<and> matchAndReplace golib docsRule ''/docs'' = ([], False)"
proof -
  have h1: "matchAndReplace golib docsRule ''/docs/v12/hello'' = (''/docs'', True)"
    by code_simp
  have h2: "target docsRule = ''/docs''"
    by (simp add: docsRule_def)
  from literal_output_not_rematched [of golib "''301 /docs/v12(.*) /docs''" docsRule
      "''/docs/v12/hello''"] docsRule_parse h1 h2
  show ?thesis by simp
qed

text \<open>
  C3 as stated fails. The first rule of the README, \<^verbatim>\<open>301 /seo/(.*) /$1\<close>, compiles;
  it sends \<^verbatim>\<open>/seo/seo/about\<close> to \<^verbatim>\<open>/seo/about\<close>, and its pattern matches that
  output again.
\<close>

theorem rewrite_idempotence_counterexample:
  "parseRedirectMatchLine golib ''301 /seo/(.*) /$1'' = Inr seoRule
   \<and> matchAndReplace golib seoRule ''/seo/seo/about'' = (''/seo/about'', True)
   \<and> MatchString golib (pattern seoRule) ''/seo/about''
   \<and> matchAndReplace golib seoRule ''/seo/about'' = (''/about'', True)"
proof -
  have h1: "matchAndReplace golib seoRule ''/seo/seo/about'' = (''/seo/about'', True)"
    by code_simp
  have h2: "MatchString golib (pattern seoRule) ''/seo/about''"
    by code_simp
  have h3: "matchAndReplace golib seoRule ''/seo/about'' = (''/about'', True)"
    by code_simp
  from seoRule_parse h1 h2 h3 show ?thesis by simp
qed

subsection \<open>C4: a request on the bare root domain\<close>

text \<open>
  C4. The engine is built by \<^verbatim>\<open>New\<close> from options whose primary subdomain is
  \<^verbatim>\<open>www\<close>, with any rule lines. A request whose host is \<^verbatim>\<open>mydomain.com:8080\<close> and
  whose path is \<^verbatim>\<open>/about\<close> ends in \<^verbatim>\<open>http.Redirect\<close> with status 301 to the
  request's URL with the host \<^verbatim>\<open>www.mydomain.com:8080\<close> and the path unchanged, and
  no rule is evaluated: the result does not depend on the rule list. The libraries
  are assumed to split the host from the port 8080 and to give \<^verbatim>\<open>mydomain.com\<close> as
  its own registrable domain.
\<close>

theorem bare_root_redirects_to_primary_subdomain:
  "New L opts = Inr e \<and> PrimarySubdomain opts = ''www''
   \<and> getHost r = ''mydomain.com:8080'' \<and> Path (URL r) = ''/about''
   \<and> SplitHostPort L ''mydomain.com:8080'' = Some (''mydomain.com'', ''8080'')
   \<and> EffectiveTLDPlusOne L ''mydomain.com'' = Some ''mydomain.com''
   \<longrightarrow> rewrite L e w r
       = HttpRedirect w
           (r\<lparr>Host := ''www.mydomain.com:8080'',
              URL := (URL r)\<lparr>URL_Host := ''www.mydomain.com:8080''\<rparr>\<rparr>)
           (URL_String L ((URL r)\<lparr>URL_Host := ''www.mydomain.com:8080''\<rparr>))
           301
     \<and> Path ((URL r)\<lparr>URL_Host := ''www.mydomain.com:8080''\<rparr>) = ''/about''"
proof
  assume a: "New L opts = Inr e \<and> PrimarySubdomain opts = ''www''
   \<and> getHost r = ''mydomain.com:8080'' \<and> Path (URL r) = ''/about''
   \<and> SplitHostPort L ''mydomain.com:8080'' = Some (''mydomain.com'', ''8080'')
   \<and> EffectiveTLDPlusOne L ''mydomain.com'' = Some ''mydomain.com''"
  with New_options [of L opts e]
  have ps: "PrimarySubdomain (options e) = ''www.''"
    and dv: "domainValidator e = (\<lambda>root. \<not> HasSuffix root localhost)"
    by (simp_all add: HasSuffix_def)
  from a have gd: "getDomain L ''mydomain.com:8080'' = ''mydomain.com''"
    by (simp add: getDomain_def loopbacks_def)
  have gp: "getPort ''mydomain.com:8080'' = '':8080''"
    by (simp add: getPort_def)
  have nl: "\<not> HasSuffix ''mydomain.com'' localhost"
    by (simp add: HasSuffix_def localhost_def)
  from a ps dv gd gp nl
  have "subdomainStep L e w r
      = Inl (HttpRedirect w
           (r\<lparr>Host := ''www.mydomain.com:8080'',
              URL := (URL r)\<lparr>URL_Host := ''www.mydomain.com:8080''\<rparr>\<rparr>)
           (URL_String L ((URL r)\<lparr>URL_Host := ''www.mydomain.com:8080''\<rparr>))
           301)"
    by (simp add: subdomainStep_def Let_def TrimSuffix_self StatusMovedPermanently_def)
  with a show "rewrite L e w r
       = HttpRedirect w
           (r\<lparr>Host := ''www.mydomain.com:8080'',
              URL := (URL r)\<lparr>URL_Host := ''www.mydomain.com:8080''\<rparr>\<rparr>)
           (URL_String L ((URL r)\<lparr>URL_Host := ''www.mydomain.com:8080''\<rparr>))
           301
     \<and> Path ((URL r)\<lparr>URL_Host := ''www.mydomain.com:8080''\<rparr>) = ''/about''"
    by (simp add: rewrite_def)
qed

text \<open>
  With the options of the README and the library instance, the location is
  \<^verbatim>\<open>//www.mydomain.com:8080/about\<close>.
\<close>

theorem bare_root_redirects_to_primary_subdomain_witness:
  "New golib readmeOptions = Inr readmeEngine
   \<and> SplitHostPort golib ''mydomain.com:8080'' = Some (''mydomain.com'', ''8080'')
   \<and> EffectiveTLDPlusOne golib ''mydomain.com'' = Some ''mydomain.com''
   \<and> rewrite golib readmeEngine emptyWriter (getRequest ''mydomain.com:8080'' ''/about'')
       = HttpRedirect emptyWriter
           \<lparr>Method = ''GET'',
            URL = \<lparr>Scheme = [], URL_Host = ''www.mydomain.com:8080'', Path = ''/about'',
                   RawQuery = []\<rparr>,
            Host = ''www.mydomain.com:8080'', TLS = False, RequestURI = ''/about''\<rparr>
           ''//www.mydomain.com:8080/about'' 301"
proof -
  have h1: "PrimarySubdomain readmeOptions = ''www''"
    by (simp add: readmeOptions_def)
  have h2: "getHost (getRequest ''mydomain.com:8080'' ''/about'') = ''mydomain.com:8080''"
      "Path (URL (getRequest ''mydomain.com:8080'' ''/about'')) = ''/about''"
    by (simp_all add: getHost_def getRequest_def)
  have h3: "SplitHostPort golib ''mydomain.com:8080'' = Some (''mydomain.com'', ''8080'')"
    by code_simp
  have h4: "EffectiveTLDPlusOne golib ''mydomain.com'' = Some ''mydomain.com''"
    by code_simp
  have h5: "URL_String golib
      ((URL (getRequest ''mydomain.com:8080'' ''/about''))\<lparr>URL_Host := ''www.mydomain.com:8080''\<rparr>)
      = ''//www.mydomain.com:8080/about''"
    by code_simp
  from bare_root_redirects_to_primary_subdomain [of golib readmeOptions readmeEngine
      "getRequest ''mydomain.com:8080'' ''/about''" emptyWriter]
    readmeEngine_New h1 h2 h3 h4 h5
  show ?thesis by (simp add: getRequest_def)
qed

subsection \<open>C5: a request on the primary subdomain\<close>

text \<open>
  C5. When the primary subdomain is configured, the domain is not a loopback and the
  subdomain of the request (its host without the root domain and port at its end) is
  the primary subdomain, the first block of \<^verbatim>\<open>rewrite\<close> sends no response: it sets
  \<open>Host\<close> and the host of the URL to the host without the primary subdomain at its
  front, and \<^verbatim>\<open>rewrite\<close> goes on to evaluate the rules on the request so changed.
  The new host is what follows the primary subdomain in the old one, port included,
  and it is the root domain with the port whenever the old host ends with these.
\<close>

theorem primary_subdomain_host_normalized:
  "PrimarySubdomain (options e) \<noteq> [] \<and> domainValidator e (getDomain L (getHost r))
   \<and> TrimSuffix (getHost r) (getDomain L (getHost r) @ getPort (getHost r))
       = PrimarySubdomain (options e)
   \<longrightarrow> subdomainStep L e w r
       = Inr (r\<lparr>Host := TrimPrefix (getHost r) (PrimarySubdomain (options e)),
                URL := (URL r)\<lparr>URL_Host := TrimPrefix (getHost r) (PrimarySubdomain (options e))\<rparr>\<rparr>)
     \<and> rewrite L e w r
       = redirectLoop L w
           (r\<lparr>Host := TrimPrefix (getHost r) (PrimarySubdomain (options e)),
              URL := (URL r)\<lparr>URL_Host := TrimPrefix (getHost r) (PrimarySubdomain (options e))\<rparr>\<rparr>)
           (redirects e)
     \<and> getHost r
       = PrimarySubdomain (options e) @ TrimPrefix (getHost r) (PrimarySubdomain (options e))
     \<and> (HasSuffix (getHost r) (getDomain L (getHost r) @ getPort (getHost r))
        \<longrightarrow> TrimPrefix (getHost r) (PrimarySubdomain (options e))
            = getDomain L (getHost r) @ getPort (getHost r))"
proof
  assume a: "PrimarySubdomain (options e) \<noteq> [] \<and> domainValidator e (getDomain L (getHost r))
   \<and> TrimSuffix (getHost r) (getDomain L (getHost r) @ getPort (getHost r))
       = PrimarySubdomain (options e)"
  then have s: "subdomainStep L e w r
       = Inr (r\<lparr>Host := TrimPrefix (getHost r) (PrimarySubdomain (options e)),
                URL := (URL r)\<lparr>URL_Host := TrimPrefix (getHost r) (PrimarySubdomain (options e))\<rparr>\<rparr>)"
    by (simp add: subdomainStep_def Let_def)
  from a TrimSuffix_TrimPrefix [of "getHost r" "getDomain L (getHost r) @ getPort (getHost r)"
      "PrimarySubdomain (options e)"]
  have t: "getHost r
       = PrimarySubdomain (options e) @ TrimPrefix (getHost r) (PrimarySubdomain (options e))
     \<and> (HasSuffix (getHost r) (getDomain L (getHost r) @ getPort (getHost r))
        \<longrightarrow> TrimPrefix (getHost r) (PrimarySubdomain (options e))
            = getDomain L (getHost r) @ getPort (getHost r))"
    by blast
  from s t show "subdomainStep L e w r
       = Inr (r\<lparr>Host := TrimPrefix (getHost r) (PrimarySubdomain (options e)),
                URL := (URL r)\<lparr>URL_Host := TrimPrefix (getHost r) (PrimarySubdomain (options e))\<rparr>\<rparr>)
     \<and> rewrite L e w r
       = redirectLoop L w
           (r\<lparr>Host := TrimPrefix (getHost r) (PrimarySubdomain (options e)),
              URL := (URL r)\<lparr>URL_Host := TrimPrefix (getHost r) (PrimarySubdomain (options e))\<rparr>\<rparr>)
           (redirects e)
     \<and> getHost r
       = PrimarySubdomain (options e) @ TrimPrefix (getHost r) (PrimarySubdomain (options e))
     \<and> (HasSuffix (getHost r) (getDomain L (getHost r) @ getPort (getHost r))
        \<longrightarrow> TrimPrefix (getHost r) (PrimarySubdomain (options e))
            = getDomain L (getHost r) @ getPort (getHost r))"
    by (simp add: rewrite_def)
qed

text \<open>
  With the options of the README, the host \<^verbatim>\<open>www.mydomain.com:8080\<close> becomes
  \<^verbatim>\<open>mydomain.com:8080\<close>, and the path \<^verbatim>\<open>/seo/about\<close> is then redirected by the
  first rule.
\<close>

theorem primary_subdomain_host_normalized_witness:
  "New golib readmeOptions = Inr readmeEngine
   \<and> PrimarySubdomain (options readmeEngine) = ''www.''
   \<and> getDomain golib ''www.mydomain.com:8080'' @ getPort ''www.mydomain.com:8080''
       = ''mydomain.com:8080''
   \<and> TrimSuffix ''www.mydomain.com:8080'' ''mydomain.com:8080'' = ''www.''
   \<and> subdomainStep golib readmeEngine emptyWriter (getRequest ''www.mydomain.com:8080'' ''/about'')
       = Inr \<lparr>Method = ''GET'',
              URL = \<lparr>Scheme = [], URL_Host = ''mydomain.com:8080'', Path = ''/about'',
                     RawQuery = []\<rparr>,
              Host = ''mydomain.com:8080'', TLS = False, RequestURI = ''/about''\<rparr>
   \<and> rewrite golib readmeEngine emptyWriter (getRequest ''www.mydomain.com:8080'' ''/seo/about'')
       = HttpRedirect emptyWriter
           \<lparr>Method = ''GET'',
            URL = \<lparr>Scheme = [], URL_Host = ''mydomain.com:8080'', Path = ''/seo/about'',
                   RawQuery = []\<rparr>,
            Host = ''mydomain.com:8080'', TLS = False, RequestURI = ''/seo/about''\<rparr>
           ''/about'' 301"
proof -
  have h1: "PrimarySubdomain (options readmeEngine) = ''www.''"
      "redirects readmeEngine = [seoRule, docsRule, oldRule]"
    by (simp_all add: readmeEngine_def)
  have h2: "getHost (getRequest ''www.mydomain.com:8080'' p) = ''www.mydomain.com:8080''" for p
    by (simp add: getHost_def getRequest_def)
  have h3: "getDomain golib ''www.mydomain.com:8080'' = ''mydomain.com''"
    by code_simp
  have h4: "getPort ''www.mydomain.com:8080'' = '':8080''"
    by code_simp
  have h5: "domainValidator readmeEngine ''mydomain.com''"
    by (simp add: readmeEngine_def HasSuffix_def localhost_def)
  have h6: "TrimSuffix ''www.mydomain.com:8080'' ''mydomain.com:8080'' = ''www.''"
    by code_simp
  have h7: "TrimPrefix ''www.mydomain.com:8080'' ''www.'' = ''mydomain.com:8080''"
    by code_simp
  have h8: "matchAndReplace golib seoRule ''/seo/about'' = (''/about'', True)"
    by code_simp
  have h9: "isRelativePattern seoRule" "\<not> noRedirect seoRule" "code seoRule = 301"
    by (simp_all add: seoRule_def)
  from primary_subdomain_host_normalized [of readmeEngine golib
      "getRequest ''www.mydomain.com:8080'' ''/about''" emptyWriter]
    primary_subdomain_host_normalized [of readmeEngine golib
      "getRequest ''www.mydomain.com:8080'' ''/seo/about''" emptyWriter]
    readmeEngine_New h1 h2 h3 h4 h5 h6 h7 h8 h9
  show ?thesis
    by (simp add: getRequest_def matchSubject_def applyMatch_def Let_def)
qed

subsection \<open>C6: the parts of a rule line\<close>

text \<open>
  C6, as amended. The line is trimmed of leading and trailing white space and split
  at every single space byte. Compilation fails with the invalid-line error exactly
  when this gives a number of parts other than three; the parts may be empty and may
  contain white space other than the space byte.
\<close>

theorem malformed_line_iff_not_three_parts:
  "(\<exists>x. parseRedirectMatchLine L s = Inl (MalformedLine x))
     = (length (Split (TrimSpace s)) \<noteq> 3)
   \<and> (length (Split (TrimSpace s)) \<noteq> 3) = (parseRedirectMatchLine L s = Inl (MalformedLine s))"
  by (auto simp: parseRedirectMatchLine_def Let_def split: option.splits list.splits)

text \<open>A line of two parts is refused, a line of three parts is not.\<close>

theorem malformed_line_iff_not_three_parts_witness:
  "length (Split (TrimSpace ''301 /seo/(.*)'')) = 2
   \<and> parseRedirectMatchLine golib ''301 /seo/(.*)'' = Inl (MalformedLine ''301 /seo/(.*)'')
   \<and> length (Split (TrimSpace ''301 /seo/(.*) /$1'')) = 3
   \<and> parseRedirectMatchLine golib ''301 /seo/(.*) /$1'' \<noteq> Inl (MalformedLine ''301 /seo/(.*) /$1'')"
proof -
  have h1: "length (Split (TrimSpace ''301 /seo/(.*)'')) = 2"
    by code_simp
  have h2: "length (Split (TrimSpace ''301 /seo/(.*) /$1'')) = 3"
    by code_simp
  from malformed_line_iff_not_three_parts [of golib "''301 /seo/(.*)''"]
    malformed_line_iff_not_three_parts [of golib "''301 /seo/(.*) /$1''"] h1 h2
  show ?thesis by simp
qed

text \<open>
  C6 as stated fails. The line \<^verbatim>\<open>301 /a<TAB>b /c\<close> has four white-space-separated
  tokens and compiles, to a rule whose pattern contains the tab. The line
  \<^verbatim>\<open>301  /b\<close>, with two spaces, has two such tokens and is not refused as an invalid
  line: it splits into three parts, the second one empty, and fails later, at the
  loop check.
\<close>

theorem whitespace_tokens_counterexample:
  "whitespaceTokens tabLine = [''301'', ''/a'', ''b'', ''/c'']
   \<and> parseRedirectMatchLine golib tabLine = Inr tabRule
   \<and> whitespaceTokens ''301  /b'' = [''301'', ''/b'']
   \<and> parseRedirectMatchLine golib ''301  /b'' = Inl (RedirectLoop [] ''/b'')"
proof -
  have h1: "whitespaceTokens tabLine = [''301'', ''/a'', ''b'', ''/c'']"
    by code_simp
  have h2: "parseRedirectMatchLine golib tabLine = Inr tabRule"
    by code_simp
  have h3: "whitespaceTokens ''301  /b'' = [''301'', ''/b'']"
    by code_simp
  have h4: "parseRedirectMatchLine golib ''301  /b'' = Inl (RedirectLoop [] ''/b'')"
    by code_simp
  from h1 h2 h3 h4 show ?thesis by simp
qed

subsection \<open>C7: the response of an absolute-rule redirect\<close>

text \<open>
  C7, as amended. A matching rule that is not relative and redirects, and whose code
  is one that \<^verbatim>\<open>WriteHeader\<close> accepts (100 to 999), is answered by \<^verbatim>\<open>redirectAbs\<close>
  with the produced target and the rule's code. For such a code \<^verbatim>\<open>redirectAbs\<close> sets
  \<^verbatim>\<open>Location\<close> to the target; sets \<^verbatim>\<open>Content-Type\<close> to
  \<^verbatim>\<open>text/html; charset=utf-8\<close> if none was set and the method is GET or HEAD; passes
  the code to \<^verbatim>\<open>WriteHeader\<close>; and writes the HTML body (a link to the escaped
  target, with the status text as its text) if no \<^verbatim>\<open>Content-Type\<close> was set and the
  method is GET, and no body otherwise.
\<close>

theorem redirectAbs_response:
  "(100 \<le> c \<and> c \<le> 999
      \<longrightarrow> (\<exists>w'. redirectAbs L w r u c = Inr w'
            \<and> header w' ''Location'' = Some [u]
            \<and> header w' ''Content-Type''
                = (if header w ''Content-Type'' = None
                      \<and> (Method r = ''GET'' \<or> Method r = ''HEAD'')
                   then Some [''text/html; charset=utf-8''] else header w ''Content-Type'')
            \<and> status w' = Some c
            \<and> body w'
                = body w
                  @ (if header w ''Content-Type'' = None \<and> Method r = ''GET''
                     then ''<a href='' @ [CHR 0x22] @ HTMLEscapeString L u @ [CHR 0x22] @ ''>''
                          @ StatusText L c @ ''</a>.'' @ [CHR 0x0A, CHR 0x0A]
                     else [])))
   \<and> (\<not> isRelativePattern rd \<and> \<not> noRedirect rd \<and> tgt \<noteq> src
        \<and> 100 \<le> code rd \<and> code rd \<le> 999
      \<longrightarrow> (\<exists>w'. redirectAbs L w r tgt (code rd) = Inr w'
            \<and> applyMatch L w r rd src tgt = Responded w'))"
  by (simp add: redirectAbs_def applyMatch_def Let_def contentTypeHeaderKey_def
      MethodGet_def MethodHead_def)

text \<open>
  The rule \<^verbatim>\<open>301 http://a/(.*) http://b/$1\<close> on a GET request for \<^verbatim>\<open>/x\<close> on
  host \<^verbatim>\<open>a\<close>.
\<close>

theorem redirectAbs_response_witness:
  "redirectAbs golib emptyWriter (getRequest ''a'' ''/x'') ''http://b/x'' 301
     = Inr \<lparr>header = [''Location'' \<mapsto> [''http://b/x''],
                      ''Content-Type'' \<mapsto> [''text/html; charset=utf-8'']],
            status = Some 301,
            body = ''<a href='' @ [CHR 0x22] @ ''http://b/x'' @ [CHR 0x22]
                   @ ''>Moved Permanently</a>.'' @ [CHR 0x0A, CHR 0x0A]\<rparr>
   \<and> matchAndReplace golib absRule (matchSubject golib absRule (getRequest ''a'' ''/x''))
     = (''http://b/x'', True)
   \<and> applyMatch golib emptyWriter (getRequest ''a'' ''/x'') absRule ''http://a/x'' ''http://b/x''
     = Responded
         \<lparr>header = [''Location'' \<mapsto> [''http://b/x''],
                    ''Content-Type'' \<mapsto> [''text/html; charset=utf-8'']],
          status = Some 301,
          body = ''<a href='' @ [CHR 0x22] @ ''http://b/x'' @ [CHR 0x22]
                 @ ''>Moved Permanently</a>.'' @ [CHR 0x0A, CHR 0x0A]\<rparr>"
proof -
  have h1: "header emptyWriter = Map.empty" "body emptyWriter = []"
      "status emptyWriter = None"
    by (simp_all add: emptyWriter_def)
  have h2: "Method (getRequest ''a'' ''/x'') = ''GET''"
    by (simp add: getRequest_def)
  have h3: "HTMLEscapeString golib ''http://b/x'' = ''http://b/x''"
    by code_simp
  have h4: "StatusText golib 301 = ''Moved Permanently''"
    by code_simp
  have h5: "\<not> isRelativePattern absRule" "\<not> noRedirect absRule" "code absRule = 301"
    by (simp_all add: absRule_def)
  have h6: "matchSubject golib absRule (getRequest ''a'' ''/x'') = ''http://a/x''"
    by code_simp
  have h7: "matchAndReplace golib absRule ''http://a/x'' = (''http://b/x'', True)"
    by code_simp
  have h8: "redirectAbs golib emptyWriter (getRequest ''a'' ''/x'') ''http://b/x'' 301
     = Inr \<lparr>header = [''Location'' \<mapsto> [''http://b/x''],
                      ''Content-Type'' \<mapsto> [''text/html; charset=utf-8'']],
            status = Some 301,
            body = ''<a href='' @ [CHR 0x22] @ ''http://b/x'' @ [CHR 0x22]
                   @ ''>Moved Permanently</a>.'' @ [CHR 0x0A, CHR 0x0A]\<rparr>"
    using h1 h2 h3 h4
    by (simp add: redirectAbs_def Let_def contentTypeHeaderKey_def MethodGet_def emptyWriter_def)
  from redirectAbs_response [of 301 golib emptyWriter "getRequest ''a'' ''/x''" "''http://b/x''"
      absRule "''http://b/x''" "''http://a/x''"] h5 h6 h7 h8
  show ?thesis by simp
qed

text \<open>
  C7 as stated fails, in two ways. With the same rule and GET request and a response
  writer whose header already holds a \<^verbatim>\<open>Content-Type\<close>, the status 301 is written
  and no body. And the line \<^verbatim>\<open>1 http://a/(.*) http://b/$1\<close> compiles to a redirect
  rule with the code 1, for which the same GET request ends in the panic of
  \<^verbatim>\<open>WriteHeader\<close>: the header is set, no status and no body are written.
\<close>

theorem redirect_body_counterexample:
  "parseRedirectMatchLine golib ''301 http://a/(.*) http://b/$1'' = Inr absRule
   \<and> Method (getRequest ''a'' ''/x'') = ''GET''
   \<and> redirectLoop golib typedWriter (getRequest ''a'' ''/x'') [absRule]
     = Responded
         \<lparr>header = [''Content-Type'' \<mapsto> [''text/plain''],
                    ''Location'' \<mapsto> [''http://b/x'']],
          status = Some 301, body = []\<rparr>
   \<and> parseRedirectMatchLine golib ''1 http://a/(.*) http://b/$1'' = Inr codeOneRule
   \<and> \<not> isRelativePattern codeOneRule \<and> \<not> noRedirect codeOneRule \<and> code codeOneRule = 1
   \<and> redirectLoop golib emptyWriter (getRequest ''a'' ''/x'') [codeOneRule]
     = Panicked
         \<lparr>header = [''Location'' \<mapsto> [''http://b/x''],
                    ''Content-Type'' \<mapsto> [''text/html; charset=utf-8'']],
          status = None, body = []\<rparr>"
proof -
  have h2: "Method (getRequest ''a'' ''/x'') = ''GET''"
    by (simp add: getRequest_def)
  have h6: "matchSubject golib absRule (getRequest ''a'' ''/x'') = ''http://a/x''"
      "matchSubject golib codeOneRule (getRequest ''a'' ''/x'') = ''http://a/x''"
    by code_simp+
  have h7: "matchAndReplace golib absRule ''http://a/x'' = (''http://b/x'', True)"
      "matchAndReplace golib codeOneRule ''http://a/x'' = (''http://b/x'', True)"
    by code_simp+
  have h8: "applyMatch golib typedWriter (getRequest ''a'' ''/x'') absRule ''http://a/x'' ''http://b/x''
     = Responded
         \<lparr>header = [''Content-Type'' \<mapsto> [''text/plain''],
                    ''Location'' \<mapsto> [''http://b/x'']],
          status = Some 301, body = []\<rparr>"
    by (simp add: applyMatch_def absRule_def redirectAbs_def typedWriter_def
        contentTypeHeaderKey_def Let_def)
  have h9: "\<not> isRelativePattern codeOneRule" "\<not> noRedirect codeOneRule" "code codeOneRule = 1"
    by (simp_all add: codeOneRule_def absRule_def)
  have h10: "applyMatch golib emptyWriter (getRequest ''a'' ''/x'') codeOneRule ''http://a/x''
      ''http://b/x''
     = Panicked
         \<lparr>header = [''Location'' \<mapsto> [''http://b/x''],
                    ''Content-Type'' \<mapsto> [''text/html; charset=utf-8'']],
          status = None, body = []\<rparr>"
    using h2 h9
    by (simp add: applyMatch_def redirectAbs_def emptyWriter_def contentTypeHeaderKey_def
        MethodGet_def Let_def)
  from absRule_parse codeOneRule_parse h2 h6 h7 h8 h9 h10 show ?thesis by (simp add: Let_def)
qed

subsection \<open>C8: a request that no rule matches\<close>

text \<open>
  C8. When no primary subdomain is configured and no rule's pattern matches its match
  subject, \<^verbatim>\<open>rewrite\<close> calls the next handler with the response writer and the
  request it was given, unchanged.
\<close>

theorem passthrough_unchanged:
  "PrimarySubdomain (options e) = []
   \<and> (\<forall>rd \<in> set (redirects e). \<not> MatchString L (pattern rd) (matchSubject L rd r))
   \<longrightarrow> rewrite L e w r = Next w r"
proof
  assume a: "PrimarySubdomain (options e) = []
   \<and> (\<forall>rd \<in> set (redirects e). \<not> MatchString L (pattern rd) (matchSubject L rd r))"
  then have "\<forall>p \<in> set (redirects e). \<not> snd (matchAndReplace L p (matchSubject L p r))"
    by (simp add: matchAndReplace_False)
  from redirectLoop_skip [OF this, of w "[]"]
  have "redirectLoop L w r (redirects e) = Next w r" by simp
  with a show "rewrite L e w r = Next w r"
    by (simp add: rewrite_def subdomainStep_def)
qed

text \<open>The engine of the first README rule and the path \<^verbatim>\<open>/about\<close>.\<close>

theorem passthrough_unchanged_witness:
  "PrimarySubdomain (options seoEngine) = []
   \<and> \<not> MatchString golib (pattern seoRule) ''/about''
   \<and> rewrite golib seoEngine emptyWriter (getRequest ''example.com'' ''/about'')
       = Next emptyWriter (getRequest ''example.com'' ''/about'')"
proof -
  have s: "matchSubject golib seoRule (getRequest ''example.com'' ''/about'') = ''/about''"
    by (simp add: matchSubject_def seoRule_def getRequest_def)
  have h1: "\<not> MatchString golib (pattern seoRule) ''/about''"
    by code_simp
  have h2: "PrimarySubdomain (options seoEngine) = []" "redirects seoEngine = [seoRule]"
    by (simp_all add: seoEngine_def seoOptions_def)
  from passthrough_unchanged [of seoEngine golib "getRequest ''example.com'' ''/about''" emptyWriter]
    s h1 h2
  show ?thesis by simp
qed

subsection \<open>C9: an empty substitution\<close>

text \<open>
  C9. A rule whose pattern matches its match subject and whose substitution is the
  empty string does not match for \<^verbatim>\<open>matchAndReplace\<close>, and no redirect or rewrite
  is made for it: the loop goes on with the rules after it. So the outcome is the
  effect of the first rule after it whose \<^verbatim>\<open>matchAndReplace\<close> succeeds, whatever
  rules follow that one; and when no rule after it succeeds, and in particular when
  there is none, the next handler is called with the request unchanged.
\<close>

theorem empty_substitution_falls_through:
  "MatchString L (pattern rd) (matchSubject L rd r)
   \<and> ReplaceAllString L (pattern rd) (matchSubject L rd r) (target rd) = []
   \<longrightarrow> matchAndReplace L rd (matchSubject L rd r) = ([], False)
     \<and> redirectLoop L w r (rd # rds) = redirectLoop L w r rds
     \<and> redirectLoop L w r [rd] = Next w r
     \<and> ((\<forall>p \<in> set mid. \<not> snd (matchAndReplace L p (matchSubject L p r)))
          \<and> matchAndReplace L rd2 (matchSubject L rd2 r) = (t, True)
        \<longrightarrow> redirectLoop L w r (rd # mid @ rd2 # post)
            = applyMatch L w r rd2 (matchSubject L rd2 r) t)
     \<and> ((\<forall>p \<in> set rds. \<not> snd (matchAndReplace L p (matchSubject L p r)))
        \<longrightarrow> redirectLoop L w r (rd # rds) = Next w r)"
proof
  assume a: "MatchString L (pattern rd) (matchSubject L rd r)
   \<and> ReplaceAllString L (pattern rd) (matchSubject L rd r) (target rd) = []"
  then have m: "matchAndReplace L rd (matchSubject L rd r) = ([], False)"
    by (simp add: matchAndReplace_def)
  then have step: "redirectLoop L w r (rd # xs) = redirectLoop L w r xs" for xs
    by (simp add: Let_def)
  have pinned: "redirectLoop L w r (rd # mid @ rd2 # post)
      = applyMatch L w r rd2 (matchSubject L rd2 r) t"
    if "\<forall>p \<in> set mid. \<not> snd (matchAndReplace L p (matchSubject L p r))"
      and "matchAndReplace L rd2 (matchSubject L rd2 r) = (t, True)"
  proof -
    from that(1) have "redirectLoop L w r (mid @ rd2 # post) = redirectLoop L w r (rd2 # post)"
      by (rule redirectLoop_skip)
    with that(2) step [of "mid @ rd2 # post"] show ?thesis
      by (simp add: Let_def)
  qed
  have none: "redirectLoop L w r (rd # rds) = Next w r"
    if "\<forall>p \<in> set rds. \<not> snd (matchAndReplace L p (matchSubject L p r))"
  proof -
    from redirectLoop_skip [OF that, of w "[]"]
    have "redirectLoop L w r rds = Next w r" by simp
    with step [of rds] show ?thesis by simp
  qed
  from m step [of rds] step [of "[]"] pinned none
  show "matchAndReplace L rd (matchSubject L rd r) = ([], False)
     \<and> redirectLoop L w r (rd # rds) = redirectLoop L w r rds
     \<and> redirectLoop L w r [rd] = Next w r
     \<and> ((\<forall>p \<in> set mid. \<not> snd (matchAndReplace L p (matchSubject L p r)))
          \<and> matchAndReplace L rd2 (matchSubject L rd2 r) = (t, True)
        \<longrightarrow> redirectLoop L w r (rd # mid @ rd2 # post)
            = applyMatch L w r rd2 (matchSubject L rd2 r) t)
     \<and> ((\<forall>p \<in> set rds. \<not> snd (matchAndReplace L p (matchSubject L p r)))
        \<longrightarrow> redirectLoop L w r (rd # rds) = Next w r)"
    by (simp del: redirectLoop.simps(2))
qed

text \<open>
  The rule \<^verbatim>\<open>301 /x(.*) $1\<close> and the path \<^verbatim>\<open>/x\<close>: followed by the first rule of
  the README, which does not match, and the rule \<^verbatim>\<open>302 /x /y\<close>, the request is
  redirected to \<^verbatim>\<open>/y\<close> with status 302; followed by the first rule of the README
  only, or by no rule, it is passed on unchanged.
\<close>

theorem empty_substitution_falls_through_witness:
  "MatchString golib (pattern emptySubstRule) ''/x''
   \<and> ReplaceAllString golib (pattern emptySubstRule) ''/x'' (target emptySubstRule) = []
   \<and> matchAndReplace golib emptySubstRule ''/x'' = ([], False)
   \<and> redirectLoop golib emptyWriter (getRequest ''example.com'' ''/x'')
        [emptySubstRule, seoRule, xyRule, docsRule]
       = HttpRedirect emptyWriter (getRequest ''example.com'' ''/x'') ''/y'' 302
   \<and> redirectLoop golib emptyWriter (getRequest ''example.com'' ''/x'') [emptySubstRule, seoRule]
       = Next emptyWriter (getRequest ''example.com'' ''/x'')
   \<and> redirectLoop golib emptyWriter (getRequest ''example.com'' ''/x'') [emptySubstRule]
       = Next emptyWriter (getRequest ''example.com'' ''/x'')"
proof -
  have s: "matchSubject golib emptySubstRule (getRequest ''example.com'' ''/x'') = ''/x''"
      "matchSubject golib seoRule (getRequest ''example.com'' ''/x'') = ''/x''"
      "matchSubject golib xyRule (getRequest ''example.com'' ''/x'') = ''/x''"
    by (simp_all add: matchSubject_def emptySubstRule_def seoRule_def xyRule_def getRequest_def)
  have h1: "MatchString golib (pattern emptySubstRule) ''/x''"
    by code_simp
  have h2: "ReplaceAllString golib (pattern emptySubstRule) ''/x'' (target emptySubstRule) = []"
    by code_simp
  have h3: "matchAndReplace golib seoRule ''/x'' = ([], False)"
    by code_simp
  have h4: "matchAndReplace golib xyRule ''/x'' = (''/y'', True)"
    by code_simp
  have h5: "applyMatch golib emptyWriter (getRequest ''example.com'' ''/x'') xyRule ''/x'' ''/y''
      = HttpRedirect emptyWriter (getRequest ''example.com'' ''/x'') ''/y'' 302"
    by (simp add: applyMatch_def xyRule_def)
  have pre: "MatchString golib (pattern emptySubstRule)
        (matchSubject golib emptySubstRule (getRequest ''example.com'' ''/x''))
      \<and> ReplaceAllString golib (pattern emptySubstRule)
        (matchSubject golib emptySubstRule (getRequest ''example.com'' ''/x''))
        (target emptySubstRule) = []"
    using s h1 h2 by simp
  note c = empty_substitution_falls_through [of golib emptySubstRule
      "getRequest ''example.com'' ''/x''" emptyWriter "[seoRule]" "[seoRule]" xyRule "''/y''"
      "[docsRule]", THEN mp, OF pre]
  from c [THEN conjunct1] s
  have d1: "matchAndReplace golib emptySubstRule ''/x'' = ([], False)"
    by simp
  from c [THEN conjunct2, THEN conjunct2, THEN conjunct1]
  have d3: "redirectLoop golib emptyWriter (getRequest ''example.com'' ''/x'') [emptySubstRule]
      = Next emptyWriter (getRequest ''example.com'' ''/x'')" .
  from c [THEN conjunct2, THEN conjunct2, THEN conjunct2, THEN conjunct1] s h3 h4 h5
  have d4: "redirectLoop golib emptyWriter (getRequest ''example.com'' ''/x'')
        [emptySubstRule, seoRule, xyRule, docsRule]
      = HttpRedirect emptyWriter (getRequest ''example.com'' ''/x'') ''/y'' 302"
    by (simp del: redirectLoop.simps)
  from c [THEN conjunct2, THEN conjunct2, THEN conjunct2, THEN conjunct2] s h3
  have d5: "redirectLoop golib emptyWriter (getRequest ''example.com'' ''/x'')
        [emptySubstRule, seoRule]
      = Next emptyWriter (getRequest ''example.com'' ''/x'')"
    by (simp del: redirectLoop.simps)
  from h1 h2 d1 d3 d4 d5 show ?thesis
    by (simp del: redirectLoop.simps)
qed

subsection \<open>C10: an empty pattern\<close>

text \<open>
  C10. Suppose the regular-expression library compiles the empty pattern to an
  expression that matches every string. Then \<^verbatim>\<open>parseRedirectMatchLine\<close> never
  panics at \<^verbatim>\<open>pattern[0]\<close>: a line with an empty pattern is refused by the loop
  check before. And a line whose pattern the library compiles does not panic at all:
  compilation returns a rule or an error.
\<close>

theorem empty_pattern_never_indexed:
  "MustCompile L [] = Some re0 \<and> (\<forall>t. MatchString L re0 t)
   \<longrightarrow> parseRedirectMatchLine L s \<noteq> Inl PanicIndexOutOfRange
     \<and> ((length (Split (TrimSpace s)) = 3 \<longrightarrow> MustCompile L (Split (TrimSpace s) ! 1) \<noteq> None)
        \<longrightarrow> (case parseRedirectMatchLine L s of Inl err \<Rightarrow> \<not> isPanic err | Inr rd \<Rightarrow> True))"
  by (auto simp: parseRedirectMatchLine_def Let_def
      split: option.splits list.splits sum.splits if_splits)

text \<open>The line \<^verbatim>\<open>301  /b\<close>, whose pattern is empty, with the library instance.\<close>

theorem empty_pattern_never_indexed_witness:
  "MustCompile golib [] = Some Empty
   \<and> MatchString golib Empty ''/b''
   \<and> Split (TrimSpace ''301  /b'') = [''301'', [], ''/b'']
   \<and> parseRedirectMatchLine golib ''301  /b'' = Inl (RedirectLoop [] ''/b'')
   \<and> parseRedirectMatchLine golib ''301  /b'' \<noteq> Inl PanicIndexOutOfRange
   \<and> \<not> isPanic (RedirectLoop [] ''/b'')"
proof -
  have h1: "MustCompile golib [] = Some Empty"
    by code_simp
  have h2: "\<forall>t. MatchString golib Empty t"
    by (simp add: golib_def regexp_MatchString_Empty)
  have h3: "Split (TrimSpace ''301  /b'') = [''301'', [], ''/b'']"
    by code_simp
  have h4: "parseRedirectMatchLine golib ''301  /b'' = Inl (RedirectLoop [] ''/b'')"
    by code_simp
  from empty_pattern_never_indexed [of golib Empty "''301  /b''"] h1 h2 h3 h4
  show ?thesis by simp
qed

end
